theory Spec2Isabelle
  imports Main "HOL-Library.Word" "HOL-Library.Multiset" "HOL-Library.List_Lexorder" "HOL-Library.Char_ord" "HOL-Library.Product_Lexorder"
begin

section \<open>Shared vocabulary of the cloud-up tasks\<close>

text \<open>
  Go pointers to scalars (\<open>*string\<close>, \<open>*int\<close>) are options: \<open>None\<close> is the nil
  pointer, that is "unset". \<open>fi.ValueOf\<close> reads a pointer and gives the zero value of
  the type for nil. \<open>fi.Lifecycle\<close> is a string type.
\<close>

type_synonym Lifecycle = string

definition ValueOf :: "string option \<Rightarrow> string" where
  "ValueOf p = (case p of None \<Rightarrow> [] | Some s \<Rightarrow> s)"

definition ValueOfInt :: "int option \<Rightarrow> int" where
  "ValueOfInt p = (case p of None \<Rightarrow> 0 | Some i \<Rightarrow> i)"

text \<open>
  Errors are values. \<open>fi.RequiredField\<close> and \<open>fi.CannotChangeField\<close> carry the field
  name they are called with; \<open>CloudError\<close> is an error reported by a provider call;
  \<open>Errorf\<close> is \<open>fmt.Errorf\<close> with its format string, its string arguments and the
  error it wraps; \<open>ErrorfPointer\<close> is \<open>fmt.Errorf\<close> whose first argument is a pointer
  to a string, which \<open>%v\<close> prints as an address: the pointer is kept, its text is not
  modelled; \<open>NilPointerPanic\<close> is the run-time panic of dereferencing nil.
\<close>

datatype error =
    RequiredField string
  | CannotChangeField string
  | CloudError string
  | Errorf string "string list" "error option"
  | ErrorfPointer string "string option" "error option"
  | NilPointerPanic

section \<open>OpenStack tasks: Subnet and LBListener\<close>

text \<open>The task types. \<open>Network\<close>, \<open>LB\<close> and \<open>LBPool\<close> carry the fields the two
  tasks read.\<close>

record Network =
  Network_ID :: "string option"

record Subnet =
  Subnet_ID :: "string option"
  Subnet_Name :: "string option"
  Subnet_Network :: "Network option"
  Subnet_CIDR :: "string option"
  Subnet_DNSServers :: "string option list option"
  Subnet_Tag :: "string option"
  Subnet_Lifecycle :: Lifecycle

record LB =
  LB_ID :: "string option"
  LB_Provider :: "string option"

record LBPool =
  LBPool_ID :: "string option"
  LBPool_Loadbalancer :: "LB option"

record LBListener =
  LBListener_ID :: "string option"
  LBListener_Name :: "string option"
  LBListener_Port :: "int option"
  LBListener_Pool :: "LBPool option"
  LBListener_Lifecycle :: Lifecycle
  LBListener_AllowedCIDRs :: "string list"

text \<open>The provider's own objects (gophercloud), with the fields the tasks read, and
  the option structs the tasks fill in.\<close>

record OSNetwork =
  OSNetwork_ID :: string

record OSSubnet =
  OSSubnet_ID :: string
  OSSubnet_Name :: string
  OSSubnet_NetworkID :: string
  OSSubnet_CIDR :: string
  OSSubnet_DNSNameservers :: "string list"
  OSSubnet_Tags :: "string list"

record SubnetListOpts =
  SubnetListOpts_ID :: string
  SubnetListOpts_Name :: string
  SubnetListOpts_NetworkID :: string
  SubnetListOpts_CIDR :: string
  SubnetListOpts_EnableDHCP :: "bool option"
  SubnetListOpts_IPVersion :: int

record SubnetCreateOpts =
  SubnetCreateOpts_Name :: string
  SubnetCreateOpts_NetworkID :: string
  SubnetCreateOpts_IPVersion :: int
  SubnetCreateOpts_CIDR :: string
  SubnetCreateOpts_EnableDHCP :: "bool option"
  SubnetCreateOpts_DNSNameservers :: "string list"

record SubnetUpdateOpts =
  SubnetUpdateOpts_DNSNameservers :: "string list option"

record OSPool =
  OSPool_ID :: string
  OSPool_Name :: string

record OSListener =
  OSListener_ID :: string
  OSListener_Name :: string
  OSListener_ProtocolPort :: int
  OSListener_AllowedCIDRs :: "string list"
  OSListener_Pools :: "OSPool list"
  OSListener_DefaultPoolID :: string

record ListenerListOpts =
  ListenerListOpts_ID :: string
  ListenerListOpts_Name :: string

datatype Protocol = ProtocolTCP

record ListenerCreateOpts =
  ListenerCreateOpts_Name :: string
  ListenerCreateOpts_DefaultPoolID :: string
  ListenerCreateOpts_LoadbalancerID :: string
  ListenerCreateOpts_Protocol :: Protocol
  ListenerCreateOpts_ProtocolPort :: int
  ListenerCreateOpts_AllowedCIDRs :: "string list"

record ListenerUpdateOpts =
  ListenerUpdateOpts_AllowedCIDRs :: "string list option"

datatype ResourceType = ResourceTypeSubnet

text \<open>
  The cloud is an oracle: what each method of \<open>openstack.OpenstackCloud\<close> (and each
  gophercloud request made through one of its clients) answers to a request. A nil slice
  from \<open>ListSubnets\<close> is \<open>None\<close>, a non-nil one \<open>Some\<close>. The methods a render routine
  calls are logged, in order, as a list of \<open>os_call\<close>.
\<close>

record OpenstackCloud =
  ListSubnets :: "SubnetListOpts \<Rightarrow> error + OSSubnet list option"
  GetNetwork :: "string \<Rightarrow> error + OSNetwork"
  CreateSubnet :: "SubnetCreateOpts \<Rightarrow> error + OSSubnet"
  AppendTag :: "ResourceType \<Rightarrow> string \<Rightarrow> string \<Rightarrow> error option"
  subnets_Update :: "string \<Rightarrow> SubnetUpdateOpts \<Rightarrow> error option"
  UseLoadBalancerVIPACL :: "error + bool"
  ListListeners :: "ListenerListOpts \<Rightarrow> error + OSListener list"
  GetPool :: "string \<Rightarrow> error + OSPool"
  CreateListener :: "ListenerCreateOpts \<Rightarrow> error + OSListener"
  listeners_Update :: "string \<Rightarrow> ListenerUpdateOpts \<Rightarrow> error option"

datatype os_call =
    Call_CreateSubnet SubnetCreateOpts
  | Call_AppendTag ResourceType string string
  | Call_NetworkingClient
  | Call_subnets_Update string SubnetUpdateOpts
  | Call_UseLoadBalancerVIPACL
  | Call_CreateListener ListenerCreateOpts
  | Call_LoadBalancerClient
  | Call_listeners_Update string ListenerUpdateOpts

text \<open>The calls that change the cloud; the others only read it or hand out a client.\<close>

fun os_mutation :: "os_call \<Rightarrow> bool" where
  "os_mutation (Call_CreateSubnet _) = True"
| "os_mutation (Call_AppendTag _ _ _) = True"
| "os_mutation (Call_subnets_Update _ _) = True"
| "os_mutation (Call_CreateListener _) = True"
| "os_mutation (Call_listeners_Update _ _) = True"
| "os_mutation Call_NetworkingClient = False"
| "os_mutation Call_UseLoadBalancerVIPACL = False"
| "os_mutation Call_LoadBalancerClient = False"

text \<open>
  \<open>NewNetworkTaskFromCloud\<close> and \<open>NewLBPoolTaskFromCloud\<close> belong to the task files of
  \<open>Network\<close> and \<open>LBPool\<close>; the functions below take them as arguments.
\<close>

type_synonym NewNetworkTask = "Lifecycle \<Rightarrow> OSNetwork \<Rightarrow> string option \<Rightarrow> error + Network"
type_synonym NewLBPoolTask = "Lifecycle \<Rightarrow> OSPool \<Rightarrow> LBPool option \<Rightarrow> error + LBPool"

subsection \<open>Find\<close>

text \<open>
  A \<open>Find\<close> returns the receiver as it leaves it (the search terms are updated in place
  when a resource is found) and its result: an error, nil (\<open>Inr None\<close>) or the actual
  task.
\<close>

definition NewSubnetTaskFromCloud ::
  "NewNetworkTask \<Rightarrow> OpenstackCloud \<Rightarrow> Lifecycle \<Rightarrow> OSSubnet \<Rightarrow> Subnet option
     \<Rightarrow> Subnet option \<times> (error + Subnet)" where
  "NewSubnetTaskFromCloud newNetworkTask cloud lifecycle subnet fnd =
     (case GetNetwork cloud (OSSubnet_NetworkID subnet) of
        Inl err \<Rightarrow>
          (fnd, Inl (Errorf ''NewSubnetTaskFromCloud: Failed to get network with ID %s: %v''
                        [OSSubnet_NetworkID subnet] (Some err)))
      | Inr network \<Rightarrow>
         (case fnd of
            None \<Rightarrow> (fnd, Inl NilPointerPanic)
          | Some f \<Rightarrow>
             (case newNetworkTask lifecycle network (Subnet_Tag f) of
                Inl err \<Rightarrow>
                  (fnd, Inl (Errorf ''error creating network task from cloud: %v'' [] (Some err)))
              | Inr networkTask \<Rightarrow>
                  let nameservers = map Some (OSSubnet_DNSNameservers subnet);
                      tag = (if ValueOf (Subnet_Tag f) \<in> set (OSSubnet_Tags subnet)
                             then ValueOf (Subnet_Tag f) else []);
                      actual = \<lparr> Subnet_ID = Some (OSSubnet_ID subnet),
                                 Subnet_Name = Some (OSSubnet_Name subnet),
                                 Subnet_Network = Some networkTask,
                                 Subnet_CIDR = Some (OSSubnet_CIDR subnet),
                                 Subnet_DNSServers = Some nameservers,
                                 Subnet_Tag = Some tag,
                                 Subnet_Lifecycle = lifecycle \<rparr>
                  in (Some (f\<lparr>Subnet_ID := Subnet_ID actual\<rparr>), Inr actual))))"

text \<open>The listing request \<open>Subnet.Find\<close> fills in from the task and its network.\<close>

definition Subnet_Find_opt :: "Subnet \<Rightarrow> Network \<Rightarrow> SubnetListOpts" where
  "Subnet_Find_opt s network =
     \<lparr> SubnetListOpts_ID = ValueOf (Subnet_ID s),
       SubnetListOpts_Name = ValueOf (Subnet_Name s),
       SubnetListOpts_NetworkID = ValueOf (Network_ID network),
       SubnetListOpts_CIDR = ValueOf (Subnet_CIDR s),
       SubnetListOpts_EnableDHCP = Some True,
       SubnetListOpts_IPVersion = 4 \<rparr>"

definition Subnet_Find ::
  "NewNetworkTask \<Rightarrow> OpenstackCloud \<Rightarrow> Subnet \<Rightarrow> Subnet \<times> (error + Subnet option)" where
  "Subnet_Find newNetworkTask cloud s =
     (case Subnet_Network s of
        None \<Rightarrow> (s, Inl NilPointerPanic)
      | Some network \<Rightarrow>
         let opt = Subnet_Find_opt s network
         in (case ListSubnets cloud opt of
               Inl err \<Rightarrow> (s, Inl err)
             | Inr None \<Rightarrow> (s, Inr None)
             | Inr (Some rs) \<Rightarrow>
                 if length rs \<noteq> 1
                 then (s, Inl (Errorf ''found multiple subnets with name: %s''
                                 [ValueOf (Subnet_Name s)] None))
                 else (case NewSubnetTaskFromCloud newNetworkTask cloud (Subnet_Lifecycle s)
                              (hd rs) (Some s) of
                         (fnd, Inl err) \<Rightarrow> (s, Inl err)
                       | (fnd, Inr actual) \<Rightarrow>
                           (case fnd of None \<Rightarrow> (s, Inr (Some actual))
                                       | Some s' \<Rightarrow> (s', Inr (Some actual))))))"

definition NewLBListenerTaskFromCloud ::
  "NewLBPoolTask \<Rightarrow> OpenstackCloud \<Rightarrow> Lifecycle \<Rightarrow> OSListener \<Rightarrow> LBListener option
     \<Rightarrow> LBListener option \<times> (error + LBListener)" where
  "NewLBListenerTaskFromCloud newLBPoolTask cloud lifecycle listener fnd =
     (let listenerTask = \<lparr> LBListener_ID = Some (OSListener_ID listener),
                            LBListener_Name = Some (OSListener_Name listener),
                            LBListener_Port = Some (OSListener_ProtocolPort listener),
                            LBListener_Pool = None,
                            LBListener_Lifecycle = lifecycle,
                            LBListener_AllowedCIDRs = sort (OSListener_AllowedCIDRs listener) \<rparr>;
          finish = (\<lambda>poolTask.
             let task = listenerTask\<lparr>LBListener_Pool := Some poolTask\<rparr>
             in (case fnd of
                   None \<Rightarrow> (None, Inr task)
                 | Some f \<Rightarrow>
                     (Some (f\<lparr> LBListener_ID := LBListener_ID task,
                               LBListener_Name := LBListener_Name task,
                               LBListener_Pool := LBListener_Pool task \<rparr>), Inr task)))
      in (case OSListener_Pools listener of
            pool # _ \<Rightarrow>
              (case fnd of
                 None \<Rightarrow> (fnd, Inl NilPointerPanic)
               | Some f \<Rightarrow>
                  (case newLBPoolTask lifecycle pool (LBListener_Pool f) of
                     Inl err \<Rightarrow>
                       (fnd, Inl (Errorf ''NewLBListenerTaskFromCloud: Failed to create new LBListener task for pool %s: %v''
                                    [OSPool_Name pool] (Some err)))
                   | Inr poolTask \<Rightarrow> finish poolTask))
          | [] \<Rightarrow>
              (case GetPool cloud (OSListener_DefaultPoolID listener) of
                 Inl err \<Rightarrow>
                   (fnd, Inl (Errorf ''Fail to get pool with ID: %s: %v''
                                [OSListener_DefaultPoolID listener] (Some err)))
               | Inr pool \<Rightarrow>
                  (case fnd of
                     None \<Rightarrow> (fnd, Inl NilPointerPanic)
                   | Some f \<Rightarrow>
                      (case newLBPoolTask lifecycle pool (LBListener_Pool f) of
                         Inl err \<Rightarrow>
                           (fnd, Inl (Errorf ''NewLBListenerTaskFromCloud: Failed to create new LBListener task for pool %s: %v''
                                        [OSPool_Name pool] (Some err)))
                       | Inr poolTask \<Rightarrow> finish poolTask)))))"

text \<open>The listing request \<open>LBListener.Find\<close> fills in from the task.\<close>

definition LBListener_Find_opt :: "LBListener \<Rightarrow> ListenerListOpts" where
  "LBListener_Find_opt s =
     \<lparr> ListenerListOpts_ID = ValueOf (LBListener_ID s),
       ListenerListOpts_Name = ValueOf (LBListener_Name s) \<rparr>"

definition LBListener_Find ::
  "NewLBPoolTask \<Rightarrow> OpenstackCloud \<Rightarrow> LBListener \<Rightarrow> LBListener \<times> (error + LBListener option)" where
  "LBListener_Find newLBPoolTask cloud s =
     (if LBListener_Name s = None then (s, Inr None)
      else
        (case ListListeners cloud (LBListener_Find_opt s) of
           Inl err \<Rightarrow>
             (s, Inl (Errorf ''Failed to list loadbalancer listeners for name %s: %v''
                        [ValueOf (LBListener_Name s)] (Some err)))
         | Inr listenerList \<Rightarrow>
             if length listenerList = 0 then (s, Inr None)
             else if length listenerList > 1
             then (s, Inl (Errorf ''Multiple listeners found with name %s''
                             [ValueOf (LBListener_Name s)] None))
             else (case NewLBListenerTaskFromCloud newLBPoolTask cloud (LBListener_Lifecycle s)
                          (hd listenerList) (Some s) of
                     (fnd, Inl err) \<Rightarrow> (s, Inl err)
                   | (fnd, Inr actual) \<Rightarrow>
                       (case fnd of None \<Rightarrow> (s, Inr (Some actual))
                                   | Some s' \<Rightarrow> (s', Inr (Some actual))))))"

subsection \<open>CheckChanges\<close>

definition Subnet_CheckChanges :: "Subnet option \<Rightarrow> Subnet \<Rightarrow> Subnet \<Rightarrow> error option" where
  "Subnet_CheckChanges a e changes =
     (case a of
        None \<Rightarrow>
          if Subnet_Name e = None then Some (RequiredField ''Name'')
          else if Subnet_Network e = None then Some (RequiredField ''Network'')
          else if Subnet_CIDR e = None then Some (RequiredField ''CIDR'')
          else None
      | Some _ \<Rightarrow>
          if Subnet_Name changes \<noteq> None then Some (CannotChangeField ''Name'')
          else if Subnet_Network changes \<noteq> None then Some (CannotChangeField ''Network'')
          else if Subnet_CIDR changes \<noteq> None then Some (CannotChangeField ''CIDR'')
          else None)"

definition LBListener_CheckChanges ::
  "LBListener option \<Rightarrow> LBListener \<Rightarrow> LBListener \<Rightarrow> error option" where
  "LBListener_CheckChanges a e changes =
     (case a of
        None \<Rightarrow>
          if LBListener_Name e = None then Some (RequiredField ''Name'') else None
      | Some _ \<Rightarrow>
          if LBListener_ID changes \<noteq> None then Some (CannotChangeField ''ID'')
          else if LBListener_Name changes \<noteq> None then Some (CannotChangeField ''Name'')
          else None)"

subsection \<open>RenderOpenstack\<close>


definition LBListener_RenderOpenstack ::
  "OpenstackCloud \<Rightarrow> LBListener option \<Rightarrow> LBListener \<Rightarrow> LBListener
     \<Rightarrow> os_call list \<times> LBListener \<times> error option" where
  "LBListener_RenderOpenstack cloud a e changes =
     (case UseLoadBalancerVIPACL cloud of
        Inl err \<Rightarrow> ([Call_UseLoadBalancerVIPACL], e, Some err)
      | Inr useVIPACL \<Rightarrow>
         (case a of
            None \<Rightarrow>
              (case LBListener_Pool e of
                 None \<Rightarrow> ([Call_UseLoadBalancerVIPACL], e, Some NilPointerPanic)
               | Some pool \<Rightarrow>
                  (case LBPool_Loadbalancer pool of
                     None \<Rightarrow> ([Call_UseLoadBalancerVIPACL], e, Some NilPointerPanic)
                   | Some lb \<Rightarrow>
                      let listeneropts =
                            \<lparr> ListenerCreateOpts_Name = ValueOf (LBListener_Name e),
                              ListenerCreateOpts_DefaultPoolID = ValueOf (LBPool_ID pool),
                              ListenerCreateOpts_LoadbalancerID = ValueOf (LB_ID lb),
                              ListenerCreateOpts_Protocol = ProtocolTCP,
                              ListenerCreateOpts_ProtocolPort = ValueOfInt (LBListener_Port e),
                              ListenerCreateOpts_AllowedCIDRs =
                                (if useVIPACL \<and> ValueOf (LB_Provider lb) \<noteq> ''ovn''
                                 then LBListener_AllowedCIDRs e else []) \<rparr>
                      in (case CreateListener cloud listeneropts of
                            Inl err \<Rightarrow>
                              ([Call_UseLoadBalancerVIPACL, Call_CreateListener listeneropts], e,
                               Some (Errorf ''error creating LB listener: %v'' [] (Some err)))
                          | Inr listener \<Rightarrow>
                              ([Call_UseLoadBalancerVIPACL, Call_CreateListener listeneropts],
                               e\<lparr>LBListener_ID := Some (OSListener_ID listener)\<rparr>, None))))
          | Some a' \<Rightarrow>
              if length (LBListener_AllowedCIDRs changes) > 0 then
                (if \<not> useVIPACL then ([Call_UseLoadBalancerVIPACL], e, None)
                 else
                   (case LBListener_Pool a' of
                      None \<Rightarrow> ([Call_UseLoadBalancerVIPACL], e, Some NilPointerPanic)
                    | Some pool \<Rightarrow>
                       (case LBPool_Loadbalancer pool of
                          None \<Rightarrow> ([Call_UseLoadBalancerVIPACL], e, Some NilPointerPanic)
                        | Some lb \<Rightarrow>
                           if ValueOf (LB_Provider lb) \<noteq> ''ovn'' then
                             (let opts = \<lparr> ListenerUpdateOpts_AllowedCIDRs =
                                             Some (LBListener_AllowedCIDRs changes) \<rparr>;
                                  calls = [Call_UseLoadBalancerVIPACL, Call_LoadBalancerClient,
                                           Call_listeners_Update (ValueOf (LBListener_ID a')) opts]
                              in (case listeners_Update cloud (ValueOf (LBListener_ID a')) opts of
                                    Some err \<Rightarrow>
                                      (calls, e,
                                       Some (Errorf ''error updating LB listener: %v'' [] (Some err)))
                                  | None \<Rightarrow> (calls, e, None)))
                           else ([Call_UseLoadBalancerVIPACL], e, None))))
              else ([Call_UseLoadBalancerVIPACL], e, None)))"

section \<open>Azure task: Disk\<close>

text \<open>\<open>int32\<close> is a 32-bit word; \<open>compute.DiskStorageAccountTypes\<close> is a string type;
  a Go map of tags is a partial function.\<close>

type_synonym int32 = "32 word"

record ResourceGroup =
  ResourceGroup_Name :: "string option"

record Disk =
  Disk_Name :: "string option"
  Disk_Lifecycle :: Lifecycle
  Disk_ResourceGroup :: "ResourceGroup option"
  Disk_SizeGB :: "int32 option"
  Disk_Tags :: "string \<rightharpoonup> string option"
  Disk_VolumeType :: "string option"
  Disk_Zones :: "string option list"

datatype DiskCreateOption = DiskCreateOptionEmpty

record CreationData =
  CreationData_CreateOption :: "DiskCreateOption option"

record DiskProperties =
  DiskProperties_CreationData :: "CreationData option"
  DiskProperties_DiskSizeGB :: "int32 option"

record DiskSKU =
  DiskSKU_Name :: "string option"

record compute_Disk =
  compute_Disk_Name :: "string option"
  compute_Disk_Location :: "string option"
  compute_Disk_Properties :: "DiskProperties option"
  compute_Disk_SKU :: "DiskSKU option"
  compute_Disk_Tags :: "string \<rightharpoonup> string option"
  compute_Disk_Zones :: "string option list"

text \<open>The Azure cloud as an oracle: the disk client's \<open>List\<close> (a slice of pointers) and
  \<open>CreateOrUpdate\<close> (its result is dropped, only the error is kept), and the region.\<close>

record AzureCloud =
  Disk_List :: "string \<Rightarrow> error + compute_Disk option list"
  Disk_CreateOrUpdate :: "string \<Rightarrow> string \<Rightarrow> compute_Disk \<Rightarrow> error option"
  Region :: string

datatype az_call =
    Call_Region
  | Call_Disk_CreateOrUpdate string string compute_Disk

fun az_mutation :: "az_call \<Rightarrow> bool" where
  "az_mutation Call_Region = False"
| "az_mutation (Call_Disk_CreateOrUpdate _ _ _) = True"

text \<open>The loop of \<open>Disk.Find\<close>: the first disk whose name is the task's, with the panics
  of \<open>*v.Name == *d.Name\<close> on a nil pointer.\<close>

fun find_disk :: "string option \<Rightarrow> compute_Disk option list \<Rightarrow> error + compute_Disk option" where
  "find_disk dName [] = Inr None"
| "find_disk dName (v # l) =
     (case v of
        None \<Rightarrow> Inl NilPointerPanic
      | Some disk \<Rightarrow>
         (case compute_Disk_Name disk of
            None \<Rightarrow> Inl NilPointerPanic
          | Some vName \<Rightarrow>
             (case dName of
                None \<Rightarrow> Inl NilPointerPanic
              | Some name \<Rightarrow> if vName = name then Inr (Some disk) else find_disk dName l)))"

definition Disk_Find :: "AzureCloud \<Rightarrow> Disk \<Rightarrow> error + Disk option" where
  "Disk_Find cloud d =
     (case Disk_ResourceGroup d of
        None \<Rightarrow> Inl NilPointerPanic
      | Some rg \<Rightarrow>
         (case ResourceGroup_Name rg of
            None \<Rightarrow> Inl NilPointerPanic
          | Some rgName \<Rightarrow>
             (case Disk_List cloud rgName of
                Inl err \<Rightarrow> Inl err
              | Inr l \<Rightarrow>
                 (case find_disk (Disk_Name d) l of
                    Inl err \<Rightarrow> Inl err
                  | Inr None \<Rightarrow> Inr None
                  | Inr (Some found) \<Rightarrow>
                     (case compute_Disk_Properties found of
                        None \<Rightarrow> Inl NilPointerPanic
                      | Some props \<Rightarrow>
                          Inr (Some
                            \<lparr> Disk_Name = Disk_Name d,
                              Disk_Lifecycle = Disk_Lifecycle d,
                              Disk_ResourceGroup = Some \<lparr> ResourceGroup_Name = Some rgName \<rparr>,
                              Disk_SizeGB = DiskProperties_DiskSizeGB props,
                              Disk_Tags = compute_Disk_Tags found,
                              Disk_VolumeType =
                                (case compute_Disk_SKU found of
                                   None \<Rightarrow> None
                                 | Some sku \<Rightarrow> DiskSKU_Name sku),
                              Disk_Zones = compute_Disk_Zones found \<rparr>))))))"

definition Disk_CheckChanges :: "Disk option \<Rightarrow> Disk \<Rightarrow> Disk \<Rightarrow> error option" where
  "Disk_CheckChanges a e changes =
     (case a of
        None \<Rightarrow> if Disk_Name e = None then Some (RequiredField ''Name'') else None
      | Some _ \<Rightarrow> if Disk_Name changes \<noteq> None then Some (CannotChangeField ''Name'') else None)"

definition Disk_RenderAzure ::
  "AzureCloud \<Rightarrow> Disk option \<Rightarrow> Disk \<Rightarrow> Disk \<Rightarrow> az_call list \<times> error option" where
  "Disk_RenderAzure cloud a e changes =
     (case Disk_Name e of
        None \<Rightarrow> ([], Some NilPointerPanic)
      | Some name \<Rightarrow>
         let disk = \<lparr> compute_Disk_Name = None,
                      compute_Disk_Location = Some (Region cloud),
                      compute_Disk_Properties = Some
                        \<lparr> DiskProperties_CreationData = Some
                            \<lparr> CreationData_CreateOption = Some DiskCreateOptionEmpty \<rparr>,
                          DiskProperties_DiskSizeGB = Disk_SizeGB e \<rparr>,
                      compute_Disk_SKU = Some \<lparr> DiskSKU_Name = Disk_VolumeType e \<rparr>,
                      compute_Disk_Tags = Disk_Tags e,
                      compute_Disk_Zones = Disk_Zones e \<rparr>
         in (case Disk_ResourceGroup e of
               None \<Rightarrow> ([Call_Region], Some NilPointerPanic)
             | Some rg \<Rightarrow>
                (case ResourceGroup_Name rg of
                   None \<Rightarrow> ([Call_Region], Some NilPointerPanic)
                 | Some rgName \<Rightarrow>
                     ([Call_Region, Call_Disk_CreateOrUpdate rgName name disk],
                      Disk_CreateOrUpdate cloud rgName name disk))))"

section \<open>AWS task: LaunchTemplate, rendered for Terraform\<close>

text \<open>
  A \<open>terraformWriter.Literal\<close> is either a reference to an attribute of a resource of
  the template, built by \<open>LiteralProperty\<close> from the resource type, the resource name
  and the attribute, or a plain string value.
\<close>

datatype Literal =
    LiteralProperty string string string
  | LiteralFromStringValue string

text \<open>The structs of the emitted block, as the source declares them.\<close>

record terraformLaunchTemplateNetworkInterface =
  ni_AssociatePublicIPAddress :: "bool option"
  ni_DeleteOnTermination :: "bool option"
  ni_Ipv6AddressCount :: "int32 option"
  ni_SecurityGroups :: "Literal option list"

record terraformLaunchTemplateMonitoring =
  mon_Enabled :: "bool option"

record terraformLaunchTemplatePlacement =
  pl_Affinity :: "string option"
  pl_AvailabilityZone :: "string option"
  pl_GroupName :: "string option"
  pl_HostID :: "string option"
  pl_SpreadDomain :: "string option"
  pl_Tenancy :: "string option"

record terraformLaunchTemplateIAMProfile =
  iam_Name :: "Literal option"

record terraformLaunchTemplateMarketOptionsSpotOptions =
  so_BlockDurationMinutes :: "int32 option"
  so_InstanceInterruptionBehavior :: "string option"
  so_MaxPrice :: "string option"
  so_SpotInstanceType :: "string option"
  so_ValidUntil :: "string option"

record terraformLaunchTemplateMarketOptions =
  mo_MarketType :: "string option"
  mo_SpotOptions :: "terraformLaunchTemplateMarketOptionsSpotOptions list"

record terraformLaunchTemplateBlockDeviceEBS =
  ebs_VolumeType :: "string option"
  ebs_VolumeSize :: "int32 option"
  ebs_IOPS :: "int32 option"
  ebs_Throughput :: "int32 option"
  ebs_DeleteOnTermination :: "bool option"
  ebs_Encrypted :: "bool option"
  ebs_KmsKeyID :: "string option"

record terraformLaunchTemplateBlockDevice =
  bd_DeviceName :: "string option"
  bd_VirtualName :: "string option"
  bd_EBS :: "terraformLaunchTemplateBlockDeviceEBS list"

record terraformLaunchTemplateCreditSpecification =
  cs_CPUCredits :: "string option"

record terraformLaunchTemplateTagSpecification =
  ts_ResourceType :: "string option"
  ts_Tags :: "string \<rightharpoonup> string"

record terraformLaunchTemplateInstanceMetadata =
  md_HTTPEndpoint :: "string option"
  md_HTTPPutResponseHopLimit :: "int32 option"
  md_HTTPTokens :: "string option"
  md_HTTPProtocolIPv6 :: "string option"

record terraform_Lifecycle =
  CreateBeforeDestroy :: "bool option"

record terraformLaunchTemplate =
  tf_Name :: "string option"
  tf_Lifecycle :: "terraform_Lifecycle option"
  tf_BlockDeviceMappings :: "terraformLaunchTemplateBlockDevice list"
  tf_CreditSpecification :: "terraformLaunchTemplateCreditSpecification option"
  tf_EBSOptimized :: "bool option"
  tf_IAMInstanceProfile :: "terraformLaunchTemplateIAMProfile list"
  tf_ImageID :: "string option"
  tf_InstanceType :: "string option"
  tf_KeyName :: "Literal option"
  tf_MarketOptions :: "terraformLaunchTemplateMarketOptions list"
  tf_MetadataOptions :: "terraformLaunchTemplateInstanceMetadata option"
  tf_Monitoring :: "terraformLaunchTemplateMonitoring list"
  tf_NetworkInterfaces :: "terraformLaunchTemplateNetworkInterface list"
  tf_Placement :: "terraformLaunchTemplatePlacement list"
  tf_Tags :: "(string \<rightharpoonup> string) option"
  tf_TagSpecifications :: "terraformLaunchTemplateTagSpecification list"
  tf_UserData :: "Literal option"

text \<open>
  The task. The tasks it references (\<open>SecurityGroup\<close>, \<open>SSHKey\<close>,
  \<open>IAMInstanceProfile\<close>) are type parameters: the render reads them only through their
  \<open>TerraformLink\<close> methods. An \<open>fi.Resource\<close> is modelled by what
  \<open>fi.ResourceAsBytes\<close> reads from it: an error, a nil slice or the bytes.
\<close>

record BlockDeviceMapping =
  EbsEncrypted :: "bool option"
  EbsKmsKey :: "string option"
  EbsVolumeIops :: "int32 option"
  EbsVolumeThroughput :: "int32 option"
  EbsVolumeSize :: "int32 option"
  EbsVolumeType :: string
  VirtualName :: "string option"

type_synonym Resource = "error + string option"

record ('sg, 'key, 'prof) LaunchTemplate =
  LaunchTemplate_Name :: "string option"
  AssociatePublicIP :: "bool option"
  BlockDeviceMappings :: "BlockDeviceMapping option list"
  CPUCredits :: "string option"
  HTTPPutResponseHopLimit :: "int32 option"
  HTTPTokens :: "string option"
  HTTPProtocolIPv6 :: "string option"
  IAMInstanceProfile :: "'prof option"
  ImageID :: "string option"
  InstanceInterruptionBehavior :: "string option"
  InstanceMonitoring :: "bool option"
  InstanceType :: "string option"
  IPv6AddressCount :: "int32 option"
  RootVolumeOptimization :: "bool option"
  SecurityGroups :: "'sg list"
  SpotDurationInMinutes :: "int32 option"
  SpotPrice :: "string option"
  SSHKey :: "'key option"
  LaunchTemplate_Tags :: "(string \<rightharpoonup> string) option"
  Tenancy :: "string option"
  UserData :: "Resource option"

text \<open>A Go map from device name to \<open>*BlockDeviceMapping\<close>: the list of its entries, in
  the order a \<open>range\<close> over it happens to visit them.\<close>

type_synonym devices = "(string \<times> BlockDeviceMapping option) list"

record ec2_Image =
  ImageId :: "string option"

text \<open>
  What the render is given: the cloud's \<open>ResolveImage\<close>, the builders of the device
  maps (\<open>buildRootDevice\<close> and \<open>buildEphemeralDevices\<close> are handed the cloud), the
  target's \<open>AddFileBytes\<close> and \<open>RenderResource\<close>, and the \<open>TerraformLink\<close> method of
  each referenced task type.
\<close>

record ('sg, 'key, 'prof) terraform_env =
  ResolveImage :: "string \<Rightarrow> error + ec2_Image"
  buildRootDevice :: "('sg, 'key, 'prof) LaunchTemplate \<Rightarrow> error + devices"
  buildAdditionalDevices :: "BlockDeviceMapping option list \<Rightarrow> error + devices"
  buildEphemeralDevices :: "string \<Rightarrow> error + devices"
  AddFileBytes :: "string \<Rightarrow> string \<Rightarrow> string \<Rightarrow> string \<Rightarrow> bool \<Rightarrow> error + Literal option"
  RenderResource :: "string \<Rightarrow> string \<Rightarrow> terraformLaunchTemplate \<Rightarrow> error option"
  SecurityGroup_TerraformLink :: "'sg \<Rightarrow> Literal option"
  SSHKey_TerraformLink :: "'key \<Rightarrow> Literal option"
  IAMInstanceProfile_TerraformLink :: "'prof \<Rightarrow> Literal option"

text \<open>What the render does outside itself, in order: calls of the cloud, calls that hand
  the cloud to a builder, and calls of the target.\<close>

datatype tf_event =
    Call_ResolveImage string
  | Call_buildRootDevice
  | Call_buildEphemeralDevices string
  | Call_AddFileBytes string string string string bool
  | Call_RenderResource string string terraformLaunchTemplate

fun cloud_call :: "tf_event \<Rightarrow> bool" where
  "cloud_call (Call_ResolveImage _) = True"
| "cloud_call _ = False"

fun cloud_handed_over :: "tf_event \<Rightarrow> bool" where
  "cloud_handed_over Call_buildRootDevice = True"
| "cloud_handed_over (Call_buildEphemeralDevices _) = True"
| "cloud_handed_over _ = False"

text \<open>A task that a launch template references, as far as the model follows it: its
  identifier and its name.\<close>

record named_task =
  task_ID :: "string option"
  task_Name :: "string option"

text \<open>
  Modelled from the spec: the \<open>TerraformLink\<close> methods of the tasks a launch template
  references (\<open>SecurityGroup\<close>, \<open>SSHKey\<close>, \<open>IAMInstanceProfile\<close>; their files are not
  among the sources). By sections 3 and 4.4 of the spec a field that references another
  task is emitted as a symbolic reference of the deferred reference table, which is keyed
  by (resource-type, resource-name, attribute), and not as the identifier of the other
  task. The resource type and the attribute of the task type are arguments.
\<close>

definition reference_TerraformLink :: "string \<Rightarrow> string \<Rightarrow> named_task \<Rightarrow> Literal option" where
  "reference_TerraformLink resourceType attribute t =
     Some (LiteralProperty resourceType (ValueOf (task_Name t)) attribute)"

text \<open>
  Modelled from the spec: the surroundings of a render in which the three referenced
  task types link as \<open>reference_TerraformLink\<close> says, each with the resource type and
  the attribute of its type.
\<close>

definition with_reference_links ::
  "string \<times> string \<Rightarrow> string \<times> string \<Rightarrow> string \<times> string
     \<Rightarrow> (named_task, named_task, named_task) terraform_env
     \<Rightarrow> (named_task, named_task, named_task) terraform_env" where
  "with_reference_links sg key prof env =
     env\<lparr> SecurityGroup_TerraformLink := reference_TerraformLink (fst sg) (snd sg),
          SSHKey_TerraformLink := reference_TerraformLink (fst key) (snd key),
          IAMInstanceProfile_TerraformLink := reference_TerraformLink (fst prof) (snd prof) \<rparr>"

definition LaunchTemplate_TerraformLink :: "('sg, 'key, 'prof) LaunchTemplate \<Rightarrow> Literal option" where
  "LaunchTemplate_TerraformLink t =
     Some (LiteralProperty ''aws_launch_template'' (ValueOf (LaunchTemplate_Name t)) ''id'')"

definition VersionLink :: "('sg, 'key, 'prof) LaunchTemplate \<Rightarrow> Literal option" where
  "VersionLink t =
     Some (LiteralProperty ''aws_launch_template'' (ValueOf (LaunchTemplate_Name t)) ''latest_version'')"

definition createTerraformLaunchTemplateBlockDevice ::
  "string \<Rightarrow> BlockDeviceMapping option \<Rightarrow> error + terraformLaunchTemplateBlockDevice" where
  "createTerraformLaunchTemplateBlockDevice deviceName v =
     (case v of
        None \<Rightarrow> Inl NilPointerPanic
      | Some m \<Rightarrow>
          Inr \<lparr> bd_DeviceName = Some deviceName,
                bd_VirtualName = None,
                bd_EBS = [\<lparr> ebs_VolumeType = Some (EbsVolumeType m),
                            ebs_VolumeSize = EbsVolumeSize m,
                            ebs_IOPS = EbsVolumeIops m,
                            ebs_Throughput = EbsVolumeThroughput m,
                            ebs_DeleteOnTermination = Some True,
                            ebs_Encrypted = EbsEncrypted m,
                            ebs_KmsKeyID = EbsKmsKey m \<rparr>] \<rparr>)"

text \<open>The block the last loop builds for an ephemeral device.\<close>

definition ephemeralBlockDevice ::
  "string \<Rightarrow> BlockDeviceMapping option \<Rightarrow> error + terraformLaunchTemplateBlockDevice" where
  "ephemeralBlockDevice key v =
     (case v of
        None \<Rightarrow> Inl NilPointerPanic
      | Some m \<Rightarrow> Inr \<lparr> bd_DeviceName = Some key, bd_VirtualName = VirtualName m, bd_EBS = [] \<rparr>)"

text \<open>Modelled from the spec: \<open>maps.SortedKeys\<close> (package util/pkg/maps) is not among the
  sources; by its name and by the determinism the spec requires of template output it
  returns the keys of the map in ascending order.\<close>

definition SortedKeys :: "(string \<times> 'v) list \<Rightarrow> string list" where
  "SortedKeys m = sort (map fst m)"

text \<open>Indexing a Go map: the value of the key, nil for a key that is not there.\<close>

definition index_map :: "(string \<times> 'v option) list \<Rightarrow> string \<Rightarrow> 'v option" where
  "index_map m key = (case map_of m key of None \<Rightarrow> None | Some v \<Rightarrow> v)"

text \<open>A loop \<open>for _, key := range keys\<close> that appends one block per key to the
  mappings built so far; it stops at the first panic.\<close>

fun appendDevices ::
  "(string \<Rightarrow> BlockDeviceMapping option \<Rightarrow> error + terraformLaunchTemplateBlockDevice)
     \<Rightarrow> devices \<Rightarrow> string list \<Rightarrow> terraformLaunchTemplateBlockDevice list
     \<Rightarrow> error + terraformLaunchTemplateBlockDevice list" where
  "appendDevices mk m [] acc = Inr acc"
| "appendDevices mk m (key # keys) acc =
     (case mk key (index_map m key) of
        Inl err \<Rightarrow> Inl err
      | Inr b \<Rightarrow> appendDevices mk m keys (acc @ [b]))"

text \<open>The fields of the block that are read off the expected task (the statements from
  the struct literal down to the instance profile).\<close>

definition renderFields ::
  "('sg, 'key, 'prof) terraform_env \<Rightarrow> ('sg, 'key, 'prof) LaunchTemplate \<Rightarrow> string option
     \<Rightarrow> terraformLaunchTemplate" where
  "renderFields env e img =
     \<lparr> tf_Name = LaunchTemplate_Name e,
       tf_Lifecycle = Some \<lparr> CreateBeforeDestroy = Some True \<rparr>,
       tf_BlockDeviceMappings = [],
       tf_CreditSpecification =
         (if ValueOf (CPUCredits e) \<noteq> [] then Some \<lparr> cs_CPUCredits = CPUCredits e \<rparr> else None),
       tf_EBSOptimized = RootVolumeOptimization e,
       tf_IAMInstanceProfile =
         (case IAMInstanceProfile e of
            None \<Rightarrow> []
          | Some p \<Rightarrow> [\<lparr> iam_Name = IAMInstanceProfile_TerraformLink env p \<rparr>]),
       tf_ImageID = img,
       tf_InstanceType = InstanceType e,
       tf_KeyName = (case SSHKey e of None \<Rightarrow> None | Some k \<Rightarrow> SSHKey_TerraformLink env k),
       tf_MarketOptions =
         (if ValueOf (SpotPrice e) \<noteq> []
          then [\<lparr> mo_MarketType = Some ''spot'',
                   mo_SpotOptions =
                     [\<lparr> so_BlockDurationMinutes = SpotDurationInMinutes e,
                        so_InstanceInterruptionBehavior = InstanceInterruptionBehavior e,
                        so_MaxPrice = SpotPrice e,
                        so_SpotInstanceType = None,
                        so_ValidUntil = None \<rparr>] \<rparr>]
          else []),
       tf_MetadataOptions = Some
         \<lparr> md_HTTPEndpoint = Some ''enabled'',
           md_HTTPPutResponseHopLimit = HTTPPutResponseHopLimit e,
           md_HTTPTokens = HTTPTokens e,
           md_HTTPProtocolIPv6 = HTTPProtocolIPv6 e \<rparr>,
       tf_Monitoring =
         (case InstanceMonitoring e of
            None \<Rightarrow> []
          | Some _ \<Rightarrow> [\<lparr> mon_Enabled = InstanceMonitoring e \<rparr>]),
       tf_NetworkInterfaces =
         [\<lparr> ni_AssociatePublicIPAddress = AssociatePublicIP e,
            ni_DeleteOnTermination = Some True,
            ni_Ipv6AddressCount = IPv6AddressCount e,
            ni_SecurityGroups = map (SecurityGroup_TerraformLink env) (SecurityGroups e) \<rparr>],
       tf_Placement =
         (case Tenancy e of
            None \<Rightarrow> []
          | Some _ \<Rightarrow> [\<lparr> pl_Affinity = None, pl_AvailabilityZone = None, pl_GroupName = None,
                          pl_HostID = None, pl_SpreadDomain = None, pl_Tenancy = Tenancy e \<rparr>]),
       tf_Tags = None,
       tf_TagSpecifications = [],
       tf_UserData = None \<rparr>"

text \<open>The user data: read the resource and, when there are bytes, add them to the target
  as a file.\<close>

definition renderUserData ::
  "('sg, 'key, 'prof) terraform_env \<Rightarrow> ('sg, 'key, 'prof) LaunchTemplate
     \<Rightarrow> tf_event list \<times> (error + Literal option)" where
  "renderUserData env e =
     (case UserData e of
        None \<Rightarrow> ([], Inr None)
      | Some r \<Rightarrow>
         (case r of
            Inl err \<Rightarrow> ([], Inl err)
          | Inr None \<Rightarrow> ([], Inr None)
          | Inr (Some d) \<Rightarrow>
              ([Call_AddFileBytes ''aws_launch_template'' (ValueOf (LaunchTemplate_Name e))
                  ''user_data'' d True],
               AddFileBytes env ''aws_launch_template'' (ValueOf (LaunchTemplate_Name e))
                 ''user_data'' d True)))"

text \<open>The block-device mappings: the root devices, the additional devices and the
  ephemeral devices, each map walked in the order of its sorted keys.\<close>

definition renderBlockDevices ::
  "('sg, 'key, 'prof) terraform_env \<Rightarrow> ('sg, 'key, 'prof) LaunchTemplate
     \<Rightarrow> tf_event list \<times> (error + terraformLaunchTemplateBlockDevice list)" where
  "renderBlockDevices env e =
     (case buildRootDevice env e of
        Inl err \<Rightarrow> ([Call_buildRootDevice], Inl err)
      | Inr devs \<Rightarrow>
         (case appendDevices createTerraformLaunchTemplateBlockDevice devs (SortedKeys devs) [] of
            Inl err \<Rightarrow> ([Call_buildRootDevice], Inl err)
          | Inr bds1 \<Rightarrow>
             (case buildAdditionalDevices env (BlockDeviceMappings e) of
                Inl err \<Rightarrow> ([Call_buildRootDevice], Inl err)
              | Inr additionals \<Rightarrow>
                 (case appendDevices createTerraformLaunchTemplateBlockDevice additionals
                         (SortedKeys additionals) bds1 of
                    Inl err \<Rightarrow> ([Call_buildRootDevice], Inl err)
                  | Inr bds2 \<Rightarrow>
                     let evs = [Call_buildRootDevice,
                                Call_buildEphemeralDevices (ValueOf (InstanceType e))]
                     in (case buildEphemeralDevices env (ValueOf (InstanceType e)) of
                           Inl err \<Rightarrow> (evs, Inl err)
                         | Inr ephs \<Rightarrow>
                             (evs, appendDevices ephemeralBlockDevice ephs (SortedKeys ephs) bds2))))))"

definition RenderTerraform ::
  "('sg, 'key, 'prof) terraform_env \<Rightarrow> ('sg, 'key, 'prof) LaunchTemplate option
     \<Rightarrow> ('sg, 'key, 'prof) LaunchTemplate \<Rightarrow> ('sg, 'key, 'prof) LaunchTemplate
     \<Rightarrow> tf_event list \<times> error option" where
  "RenderTerraform env a e changes =
     (let ev1 = (case ImageID e of None \<Rightarrow> [] | Some _ \<Rightarrow> [Call_ResolveImage (ValueOf (ImageID e))])
      in (case (case ImageID e of
                  None \<Rightarrow> Inr None
                | Some _ \<Rightarrow>
                   (case ResolveImage env (ValueOf (ImageID e)) of
                      Inl err \<Rightarrow> Inl err
                    | Inr im \<Rightarrow> Inr (ImageId im))) of
            Inl err \<Rightarrow> (ev1, Some err)
          | Inr img \<Rightarrow>
             (case renderUserData env e of
                (ev2, Inl err) \<Rightarrow> (ev1 @ ev2, Some err)
              | (ev2, Inr userData) \<Rightarrow>
                 (case renderBlockDevices env e of
                    (ev3, Inl err) \<Rightarrow> (ev1 @ ev2 @ ev3, Some err)
                  | (ev3, Inr bds) \<Rightarrow>
                     let tf = (renderFields env e img)
                                \<lparr> tf_UserData := userData, tf_BlockDeviceMappings := bds \<rparr>;
                         tf = (case LaunchTemplate_Tags e of
                                 None \<Rightarrow> tf
                               | Some tags \<Rightarrow>
                                   tf\<lparr> tf_TagSpecifications :=
                                         [\<lparr> ts_ResourceType = Some ''instance'', ts_Tags = tags \<rparr>,
                                          \<lparr> ts_ResourceType = Some ''volume'', ts_Tags = tags \<rparr>],
                                       tf_Tags := Some tags \<rparr>);
                         name = ValueOf (LaunchTemplate_Name e)
                     in (ev1 @ ev2 @ ev3 @ [Call_RenderResource ''aws_launch_template'' name tf],
                         RenderResource env ''aws_launch_template'' name tf)))))"

text \<open>The block handed to \<open>RenderResource\<close>, when the render gets that far.\<close>

fun rendered_block :: "tf_event list \<Rightarrow> terraformLaunchTemplate option" where
  "rendered_block [] = None"
| "rendered_block (Call_RenderResource _ _ tf # _) = Some tf"
| "rendered_block (_ # evs) = rendered_block evs"

section \<open>Dependencies and the run of a task\<close>

text \<open>The tasks of a run, as far as the sources name their types. The map handed to
  \<open>GetDependencies\<close> is the list of its entries in the order the \<open>range\<close> visits
  them, which Go leaves open.\<close>

datatype task =
    NetworkTask Network
  | SubnetTask Subnet
  | LBTask LB
  | LBPoolTask LBPool
  | LBListenerTask LBListener
  | DiskTask Disk

fun is_Network :: "task \<Rightarrow> bool" where
  "is_Network (NetworkTask _) = True"
| "is_Network _ = False"

fun is_LB :: "task \<Rightarrow> bool" where
  "is_LB (LBTask _) = True"
| "is_LB _ = False"

fun is_LBPool :: "task \<Rightarrow> bool" where
  "is_LBPool (LBPoolTask _) = True"
| "is_LBPool _ = False"

fun Subnet_GetDependencies :: "(string \<times> task) list \<Rightarrow> task list" where
  "Subnet_GetDependencies [] = []"
| "Subnet_GetDependencies ((key, t) # tasks) =
     (if is_Network t then t # Subnet_GetDependencies tasks else Subnet_GetDependencies tasks)"

fun LBListener_GetDependencies :: "(string \<times> task) list \<Rightarrow> task list" where
  "LBListener_GetDependencies [] = []"
| "LBListener_GetDependencies ((key, t) # tasks) =
     (if is_LB t then [t] else []) @ (if is_LBPool t then [t] else [])
       @ LBListener_GetDependencies tasks"

text \<open>The steps of the run of a task and its terminal states, as the spec names them.\<close>

datatype step = Discovering | Diffing | Validating | Rendering

datatype task_state = Done | Failed error

text \<open>
  Modelled from the spec: the run method of a task (\<open>fi.CloudupDefaultDeltaRunMethod\<close>,
  which every \<open>Run\<close> calls, is not among the sources). By sections 4.2 to 4.5 of the
  spec a task goes through discovery, diffing, validation and rendering, and fails at
  the first step that fails; validation gets (actual, expected, changes); the apply
  routine of the backend is invoked only after validation has passed, and not at all
  when the changes object is empty. The result is the steps the task went through, the
  cloud calls its apply routine made, and its terminal state.
\<close>

definition RunTask ::
  "(error + 'a option) \<Rightarrow> ('a option \<Rightarrow> 'c) \<Rightarrow> ('c \<Rightarrow> bool) \<Rightarrow> ('a option \<Rightarrow> 'c \<Rightarrow> error option)
     \<Rightarrow> ('a option \<Rightarrow> 'c \<Rightarrow> 'k list \<times> error option) \<Rightarrow> step list \<times> 'k list \<times> task_state" where
  "RunTask discovered diff no_changes check_changes render =
     (case discovered of
        Inl err \<Rightarrow> ([Discovering], [], Failed err)
      | Inr a \<Rightarrow>
         let changes = diff a
         in (case check_changes a changes of
               Some err \<Rightarrow> ([Discovering, Diffing, Validating], [], Failed err)
             | None \<Rightarrow>
                 if no_changes changes then ([Discovering, Diffing, Validating], [], Done)
                 else (case render a changes of
                         (calls, Some err) \<Rightarrow>
                           ([Discovering, Diffing, Validating, Rendering], calls, Failed err)
                       | (calls, None) \<Rightarrow>
                           ([Discovering, Diffing, Validating, Rendering], calls, Done))))"

text \<open>
  Modelled from the spec: when a changes object is empty (the diff of actual and
  expected, \<open>fi.BuildChanges\<close>, is not among the sources). By section 3 of the spec a
  changes object has the shape of the task, and a field is present in it only if actual
  and expected differ on it; it is empty when no field is present.
\<close>

definition Disk_no_changes :: "Disk \<Rightarrow> bool" where
  "Disk_no_changes changes \<longleftrightarrow>
     Disk_Name changes = None \<and> Disk_ResourceGroup changes = None \<and> Disk_SizeGB changes = None
     \<and> Disk_Tags changes = Map.empty \<and> Disk_VolumeType changes = None \<and> Disk_Zones changes = []"

text \<open>
  Modelled from the spec: when the changes object of an LBListener is empty (see
  \<open>Disk_no_changes\<close>): no field of it is present.
\<close>

definition LBListener_no_changes :: "LBListener \<Rightarrow> bool" where
  "LBListener_no_changes changes \<longleftrightarrow>
     LBListener_ID changes = None \<and> LBListener_Name changes = None
     \<and> LBListener_Port changes = None \<and> LBListener_Pool changes = None
     \<and> LBListener_AllowedCIDRs changes = []"

text \<open>
  Modelled from the spec: the order in which the tasks of one layer are rendered (the
  scheduler is not among the sources). By section 4.1 of the spec ties within a layer
  are broken by a stable key, task type then name.
\<close>

definition orderLayer :: "((string \<times> string) \<times> 't) list \<Rightarrow> ((string \<times> string) \<times> 't) list" where
  "orderLayer layer = sort_key fst layer"

text \<open>
  Modelled from the spec: the template output of a layer (the template target and the
  scheduler are not among the sources) is the blocks of its tasks, in the order of
  \<open>orderLayer\<close>.
\<close>

definition emitLayer :: "('t \<Rightarrow> 'b) \<Rightarrow> ((string \<times> string) \<times> 't) list \<Rightarrow> 'b list" where
  "emitLayer emit layer = map (emit \<circ> snd) (orderLayer layer)"

section \<open>The log dumper: DumpAllNodes\<close>

text \<open>A node, with what the dumper reads of it: its name, its labels and the
  (type, address) pairs of its status.\<close>

record Node =
  Node_Name :: string
  Node_Labels :: "string \<rightharpoonup> string"
  Node_Addresses :: "(string \<times> string) list"

text \<open>What the dumper does, in order: it takes up a registered node or an unregistered
  address, dials a host, collects the logs of a node and closes the connection.\<close>

datatype dump_event =
    Ev_dumpRegistered Node
  | Ev_dumpNotRegistered string bool
  | Ev_Dial string bool
  | Ev_dump string
  | Ev_Close string

text \<open>The surroundings: what \<open>ctx.Err()\<close> and the SSH client factory's \<open>Dial\<close> answer,
  given all that has happened so far.\<close>

record dump_env =
  ctx_Err :: "dump_event list \<Rightarrow> error option"
  Dial :: "dump_event list \<Rightarrow> string \<Rightarrow> bool \<Rightarrow> error option"

definition dumpNode ::
  "dump_env \<Rightarrow> dump_event list \<Rightarrow> string \<Rightarrow> string \<Rightarrow> bool \<Rightarrow> dump_event list \<times> error option" where
  "dumpNode env tr name ip useBastion =
     (if ip = [] then (tr, Some (Errorf ''could not find address for %v, '' [name] None))
      else
        (case Dial env tr ip useBastion of
           Some err \<Rightarrow>
             (tr @ [Ev_Dial ip useBastion],
              Some (Errorf ''connecting: %w'' []
                      (Some (Errorf ''unable to SSH to %q: %v'' [ip] (Some err)))))
         | None \<Rightarrow> (tr @ [Ev_Dial ip useBastion, Ev_dump name, Ev_Close name], None)))"

text \<open>The loop over the addresses of a node: the first external address ends it, the
  first internal address is kept. It returns (publicIP, privateIP).\<close>

fun nodeAddresses :: "(string \<times> string) list \<Rightarrow> string \<Rightarrow> string \<times> string" where
  "nodeAddresses [] privateIP = ([], privateIP)"
| "nodeAddresses ((ty, address) # rest) privateIP =
     (if ty = ''ExternalIP'' then (address, privateIP)
      else if ty = ''InternalIP''
      then nodeAddresses rest (if privateIP = [] then address else privateIP)
      else nodeAddresses rest privateIP)"

definition dumpRegistered ::
  "dump_env \<Rightarrow> dump_event list \<Rightarrow> Node \<Rightarrow> dump_event list \<times> error option" where
  "dumpRegistered env tr node =
     (let tr1 = tr @ [Ev_dumpRegistered node]
      in (case ctx_Err env tr1 of
            Some err \<Rightarrow> (tr1, Some err)
          | None \<Rightarrow>
             (case nodeAddresses (Node_Addresses node) [] of
                (publicIP, privateIP) \<Rightarrow>
                  if publicIP \<noteq> [] then dumpNode env tr1 (Node_Name node) publicIP False
                  else dumpNode env tr1 (Node_Name node) privateIP True)))"

definition dumpNotRegistered ::
  "dump_env \<Rightarrow> dump_event list \<Rightarrow> string \<Rightarrow> bool \<Rightarrow> dump_event list \<times> error option" where
  "dumpNotRegistered env tr ip useBastion =
     (let tr1 = tr @ [Ev_dumpNotRegistered ip useBastion]
      in (case ctx_Err env tr1 of
            Some err \<Rightarrow> (tr1, Some err)
          | None \<Rightarrow> (fst (dumpNode env tr1 ip ip useBastion), None)))"

definition findInstancesNotDumped :: "string list \<Rightarrow> Node list \<Rightarrow> string list" where
  "findInstancesNotDumped ips dumped =
     filter (\<lambda>ip. ip \<notin> set (concat (map (\<lambda>node. map snd (Node_Addresses node)) dumped))) ips"

definition controlPlane :: "Node \<Rightarrow> bool" where
  "controlPlane node \<longleftrightarrow>
     Node_Labels node ''node-role.kubernetes.io/master'' \<noteq> None
     \<or> Node_Labels node ''node-role.kubernetes.io/control-plane'' \<noteq> None
     \<or> Node_Labels node ''node-role.kubernetes.io/api-server'' \<noteq> None"

text \<open>The loop over the special nodes: no limit is looked at.\<close>

fun dumpSpecial ::
  "dump_env \<Rightarrow> Node list \<Rightarrow> dump_event list \<times> Node list \<Rightarrow> dump_event list \<times> Node list" where
  "dumpSpecial env [] st = st"
| "dumpSpecial env (node # rest) (tr, dumped) =
     (case dumpRegistered env tr node of
        (tr', Some err) \<Rightarrow> dumpSpecial env rest (tr', dumped)
      | (tr', None) \<Rightarrow> dumpSpecial env rest (tr', dumped @ [node]))"

text \<open>The loop over the regular nodes; the flag says that it returned from
  \<open>DumpAllNodes\<close> at the limit.\<close>

fun dumpRegular ::
  "dump_env \<Rightarrow> int \<Rightarrow> Node list \<Rightarrow> dump_event list \<times> Node list
     \<Rightarrow> bool \<times> dump_event list \<times> Node list" where
  "dumpRegular env maxNodesToDump [] st = (False, st)"
| "dumpRegular env maxNodesToDump (node # rest) (tr, dumped) =
     (if int (length dumped) \<ge> maxNodesToDump then (True, tr, dumped)
      else
        (case dumpRegistered env tr node of
           (tr', Some err) \<Rightarrow> dumpRegular env maxNodesToDump rest (tr', dumped)
         | (tr', None) \<Rightarrow> dumpRegular env maxNodesToDump rest (tr', dumped @ [node])))"

text \<open>The loops over the addresses that were not dumped: \<open>Some r\<close> says that the loop
  returned \<open>r\<close> from \<open>DumpAllNodes\<close>, \<open>None\<close> that it ran to its end.\<close>

fun dumpAdditional ::
  "dump_env \<Rightarrow> int \<Rightarrow> Node list \<Rightarrow> bool \<Rightarrow> string list \<Rightarrow> dump_event list
     \<Rightarrow> dump_event list \<times> error option option" where
  "dumpAdditional env maxNodesToDump dumped useBastion [] tr = (tr, None)"
| "dumpAdditional env maxNodesToDump dumped useBastion (ip # rest) tr =
     (if int (length dumped) \<ge> maxNodesToDump then (tr, Some None)
      else
        (case dumpNotRegistered env tr ip useBastion of
           (tr', Some err) \<Rightarrow> (tr', Some (Some err))
         | (tr', None) \<Rightarrow> dumpAdditional env maxNodesToDump dumped useBastion rest tr'))"

text \<open>\<open>DumpAllNodes\<close> returns an error; the model also gives what happened and the
  nodes in \<open>dumped\<close> at the return.\<close>

definition DumpAllNodes ::
  "dump_env \<Rightarrow> Node list \<Rightarrow> int \<Rightarrow> string list \<Rightarrow> string list
     \<Rightarrow> dump_event list \<times> Node list \<times> error option" where
  "DumpAllNodes env nodes maxNodesToDump additionalIPs additionalPrivateIPs =
     (let special = filter controlPlane nodes;
          regular = filter (\<lambda>node. \<not> controlPlane node) nodes
      in (case dumpRegular env maxNodesToDump regular (dumpSpecial env special ([], [])) of
            (True, tr, dumped) \<Rightarrow> (tr, dumped, None)
          | (False, tr, dumped) \<Rightarrow>
             (case dumpAdditional env maxNodesToDump dumped False
                     (findInstancesNotDumped additionalIPs dumped) tr of
                (tr', Some r) \<Rightarrow> (tr', dumped, r)
              | (tr', None) \<Rightarrow>
                 (case dumpAdditional env maxNodesToDump dumped True
                         (findInstancesNotDumped additionalPrivateIPs dumped) tr' of
                    (tr'', Some r) \<Rightarrow> (tr'', dumped, r)
                  | (tr'', None) \<Rightarrow> (tr'', dumped, None)))))"

text \<open>The nodes and addresses the dumper took up, in order.\<close>

fun attempt :: "dump_event \<Rightarrow> bool" where
  "attempt (Ev_dumpRegistered _) = True"
| "attempt (Ev_dumpNotRegistered _ _) = True"
| "attempt _ = False"

section \<open>Example inputs\<close>

text \<open>The zero values of the task structs, and a cloud that answers every request
  with success.\<close>

definition Subnet_zero :: Subnet where
  "Subnet_zero = \<lparr> Subnet_ID = None, Subnet_Name = None, Subnet_Network = None,
                   Subnet_CIDR = None, Subnet_DNSServers = None, Subnet_Tag = None,
                   Subnet_Lifecycle = [] \<rparr>"

definition LBListener_zero :: LBListener where
  "LBListener_zero = \<lparr> LBListener_ID = None, LBListener_Name = None, LBListener_Port = None,
                       LBListener_Pool = None, LBListener_Lifecycle = [],
                       LBListener_AllowedCIDRs = [] \<rparr>"

definition Disk_zero :: Disk where
  "Disk_zero = \<lparr> Disk_Name = None, Disk_Lifecycle = [], Disk_ResourceGroup = None,
                 Disk_SizeGB = None, Disk_Tags = Map.empty, Disk_VolumeType = None,
                 Disk_Zones = [] \<rparr>"

definition cloud_listing :: "OSSubnet list option \<Rightarrow> OSListener list \<Rightarrow> OpenstackCloud" where
  "cloud_listing subnets listeners =
     \<lparr> ListSubnets = (\<lambda>_. Inr subnets),
       GetNetwork = (\<lambda>id. Inr \<lparr> OSNetwork_ID = id \<rparr>),
       CreateSubnet = (\<lambda>opt. Inr \<lparr> OSSubnet_ID = ''subnet-1'',
                                   OSSubnet_Name = SubnetCreateOpts_Name opt,
                                   OSSubnet_NetworkID = SubnetCreateOpts_NetworkID opt,
                                   OSSubnet_CIDR = SubnetCreateOpts_CIDR opt,
                                   OSSubnet_DNSNameservers = SubnetCreateOpts_DNSNameservers opt,
                                   OSSubnet_Tags = [] \<rparr>),
       AppendTag = (\<lambda>_ _ _. None),
       subnets_Update = (\<lambda>_ _. None),
       UseLoadBalancerVIPACL = Inr True,
       ListListeners = (\<lambda>_. Inr listeners),
       GetPool = (\<lambda>id. Inr \<lparr> OSPool_ID = id, OSPool_Name = ''pool'' \<rparr>),
       CreateListener = (\<lambda>opt. Inr \<lparr> OSListener_ID = ''listener-1'',
                                     OSListener_Name = ListenerCreateOpts_Name opt,
                                     OSListener_ProtocolPort = ListenerCreateOpts_ProtocolPort opt,
                                     OSListener_AllowedCIDRs = ListenerCreateOpts_AllowedCIDRs opt,
                                     OSListener_Pools = [],
                                     OSListener_DefaultPoolID = ListenerCreateOpts_DefaultPoolID opt \<rparr>),
       listeners_Update = (\<lambda>_ _. None) \<rparr>"

definition newNetworkTask_ok :: NewNetworkTask where
  "newNetworkTask_ok lifecycle network tag = Inr \<lparr> Network_ID = Some (OSNetwork_ID network) \<rparr>"

definition newLBPoolTask_ok :: NewLBPoolTask where
  "newLBPoolTask_ok lifecycle pool fnd =
     Inr \<lparr> LBPool_ID = Some (OSPool_ID pool), LBPool_Loadbalancer = None \<rparr>"

definition subnet_utility :: Subnet where
  "subnet_utility = \<lparr> Subnet_ID = None, Subnet_Name = Some ''utility'',
                      Subnet_Network = Some \<lparr> Network_ID = Some ''net-1'' \<rparr>,
                      Subnet_CIDR = Some ''10.0.1.0/24'', Subnet_DNSServers = None,
                      Subnet_Tag = Some ''cluster'', Subnet_Lifecycle = ''Sync'' \<rparr>"

definition azure_listing :: "compute_Disk option list \<Rightarrow> AzureCloud" where
  "azure_listing l =
     \<lparr> Disk_List = (\<lambda>_. Inr l), Disk_CreateOrUpdate = (\<lambda>_ _ _. None), Region = ''westeurope'' \<rparr>"

definition disk_etcd :: Disk where
  "disk_etcd = \<lparr> Disk_Name = Some ''etcd'', Disk_Lifecycle = ''Sync'',
                 Disk_ResourceGroup = Some \<lparr> ResourceGroup_Name = Some ''rg'' \<rparr>,
                 Disk_SizeGB = Some 20, Disk_Tags = Map.empty, Disk_VolumeType = None,
                 Disk_Zones = [] \<rparr>"

definition compute_disk_etcd :: "int32 \<Rightarrow> compute_Disk" where
  "compute_disk_etcd sizeGB =
     \<lparr> compute_Disk_Name = Some ''etcd'', compute_Disk_Location = Some ''westeurope'',
       compute_Disk_Properties = Some \<lparr> DiskProperties_CreationData = None,
                                        DiskProperties_DiskSizeGB = Some sizeGB \<rparr>,
       compute_Disk_SKU = None, compute_Disk_Tags = Map.empty, compute_Disk_Zones = [] \<rparr>"

definition listener_api :: LBListener where
  "listener_api = \<lparr> LBListener_ID = None, LBListener_Name = Some ''api'',
                     LBListener_Port = Some 443, LBListener_Pool = None,
                     LBListener_Lifecycle = ''Sync'', LBListener_AllowedCIDRs = [] \<rparr>"

definition os_listener :: "string \<Rightarrow> OSListener" where
  "os_listener ident = \<lparr> OSListener_ID = ident, OSListener_Name = ''api'',
                         OSListener_ProtocolPort = 443, OSListener_AllowedCIDRs = [],
                         OSListener_Pools = [], OSListener_DefaultPoolID = ''pool-1'' \<rparr>"

text \<open>Surroundings of a render that answer every call with success, and a launch
  template that references a security group, a key and an instance profile.\<close>

definition terraform_env_ok ::
  "devices \<Rightarrow> devices \<Rightarrow> devices \<Rightarrow> (named_task, named_task, named_task) terraform_env" where
  "terraform_env_ok root additionals ephemerals =
     \<lparr> ResolveImage = (\<lambda>name. Inr \<lparr> ImageId = Some name \<rparr>),
       buildRootDevice = (\<lambda>_. Inr root),
       buildAdditionalDevices = (\<lambda>_. Inr additionals),
       buildEphemeralDevices = (\<lambda>_. Inr ephemerals),
       AddFileBytes = (\<lambda>ty name key d base64. Inr (Some (LiteralFromStringValue d))),
       RenderResource = (\<lambda>_ _ _. None),
       SecurityGroup_TerraformLink = reference_TerraformLink ''aws_security_group'' ''id'',
       SSHKey_TerraformLink = reference_TerraformLink ''aws_key_pair'' ''id'',
       IAMInstanceProfile_TerraformLink =
         reference_TerraformLink ''aws_iam_instance_profile'' ''id'' \<rparr>"

definition LaunchTemplate_zero :: "('sg, 'key, 'prof) LaunchTemplate" where
  "LaunchTemplate_zero =
     \<lparr> LaunchTemplate_Name = None, AssociatePublicIP = None, BlockDeviceMappings = [],
       CPUCredits = None, HTTPPutResponseHopLimit = None, HTTPTokens = None,
       HTTPProtocolIPv6 = None, IAMInstanceProfile = None, ImageID = None,
       InstanceInterruptionBehavior = None, InstanceMonitoring = None, InstanceType = None,
       IPv6AddressCount = None, RootVolumeOptimization = None, SecurityGroups = [],
       SpotDurationInMinutes = None, SpotPrice = None, SSHKey = None,
       LaunchTemplate_Tags = None, Tenancy = None, UserData = None \<rparr>"

definition launch_template_nodes :: "(named_task, named_task, named_task) LaunchTemplate" where
  "launch_template_nodes =
     LaunchTemplate_zero
       \<lparr> LaunchTemplate_Name := Some ''nodes'',
         ImageID := Some ''ami-1'',
         SecurityGroups := [\<lparr> task_ID = Some ''sg-0123'', task_Name = Some ''nodes-sg'' \<rparr>],
         SSHKey := Some \<lparr> task_ID = None, task_Name = Some ''admin'' \<rparr>,
         IAMInstanceProfile := Some \<lparr> task_ID = Some ''AIPA1'', task_Name = Some ''nodes-profile'' \<rparr> \<rparr>"

definition volume :: "string \<Rightarrow> BlockDeviceMapping option" where
  "volume ty = Some \<lparr> EbsEncrypted = None, EbsKmsKey = None, EbsVolumeIops = None,
                      EbsVolumeThroughput = None, EbsVolumeSize = None, EbsVolumeType = ty,
                      VirtualName = None \<rparr>"

text \<open>The references of a block, and when a literal is a symbolic reference.\<close>

fun symbolic :: "Literal option \<Rightarrow> bool" where
  "symbolic (Some (LiteralProperty _ _ _)) = True"
| "symbolic _ = False"

text \<open>Two walks of one Go map: the same entries, each key once, in whatever order. Two
  results of a builder of a device map that differ at most in that order.\<close>

definition same_map :: "('k \<times> 'v) list \<Rightarrow> ('k \<times> 'v) list \<Rightarrow> bool" where
  "same_map m1 m2 \<longleftrightarrow> distinct (map fst m1) \<and> distinct (map fst m2) \<and> set m1 = set m2"

fun same_devices :: "error + devices \<Rightarrow> error + devices \<Rightarrow> bool" where
  "same_devices (Inl err1) (Inl err2) = (err1 = err2)"
| "same_devices (Inr m1) (Inr m2) = same_map m1 m2"
| "same_devices _ _ = False"

text \<open>Surroundings of the dumper in which nothing is cancelled and every dial succeeds,
  and a node with one label and one internal address.\<close>

definition dump_env_ok :: dump_env where
  "dump_env_ok = \<lparr> ctx_Err = (\<lambda>_. None), Dial = (\<lambda>_ _ _. None) \<rparr>"

definition labelled_node :: "string \<Rightarrow> string \<Rightarrow> string \<Rightarrow> Node" where
  "labelled_node name label ip =
     \<lparr> Node_Name = name, Node_Labels = [label \<mapsto> []],
       Node_Addresses = [(''InternalIP'', ip)] \<rparr>"

section \<open>Validation\<close>

text \<open>
  Claim C2. When actual is non-nil and the changes object flags a declared-immutable
  field (Name, Network or CIDR of a Subnet; ID or Name of an LBListener),
  \<open>CheckChanges\<close> returns the cannot-change-field error naming the first flagged field
  in the order the routine checks them, and the run of the task ends after validation:
  it never reaches the rendering step and makes no cloud call, whatever the apply
  routine is.
\<close>

theorem C2_immutable_change_rejected:
  "(Subnet_Name changes \<noteq> None \<longrightarrow>
      Subnet_CheckChanges (Some a) e changes = Some (CannotChangeField ''Name''))
   \<and> (Subnet_Name changes = None \<and> Subnet_Network changes \<noteq> None \<longrightarrow>
      Subnet_CheckChanges (Some a) e changes = Some (CannotChangeField ''Network''))
   \<and> (Subnet_Name changes = None \<and> Subnet_Network changes = None \<and> Subnet_CIDR changes \<noteq> None \<longrightarrow>
      Subnet_CheckChanges (Some a) e changes = Some (CannotChangeField ''CIDR''))
   \<and> (LBListener_ID lchanges \<noteq> None \<longrightarrow>
      LBListener_CheckChanges (Some la) le lchanges = Some (CannotChangeField ''ID''))
   \<and> (LBListener_ID lchanges = None \<and> LBListener_Name lchanges \<noteq> None \<longrightarrow>
      LBListener_CheckChanges (Some la) le lchanges = Some (CannotChangeField ''Name''))
   \<and> (Subnet_Name changes \<noteq> None \<or> Subnet_Network changes \<noteq> None \<or> Subnet_CIDR changes \<noteq> None \<longrightarrow>
      (\<exists>f \<in> {''Name'', ''Network'', ''CIDR''}.
         RunTask (Inr (Some a)) (\<lambda>_. changes) no_changes (\<lambda>a c. Subnet_CheckChanges a e c) render
           = ([Discovering, Diffing, Validating], [], Failed (CannotChangeField f))))
   \<and> (LBListener_ID lchanges \<noteq> None \<or> LBListener_Name lchanges \<noteq> None \<longrightarrow>
      (\<exists>f \<in> {''ID'', ''Name''}.
         RunTask (Inr (Some la)) (\<lambda>_. lchanges) lno_changes (\<lambda>a c. LBListener_CheckChanges a le c) lrender
           = ([Discovering, Diffing, Validating], [], Failed (CannotChangeField f))))"
  by (simp add: Subnet_CheckChanges_def LBListener_CheckChanges_def RunTask_def)

theorem C2_immutable_change_rejected_witness:
  "Subnet_CheckChanges (Some Subnet_zero) Subnet_zero
       (Subnet_zero\<lparr>Subnet_CIDR := Some ''10.0.2.0/24''\<rparr>) = Some (CannotChangeField ''CIDR'')
   \<and> LBListener_CheckChanges (Some LBListener_zero) LBListener_zero
       (LBListener_zero\<lparr>LBListener_Name := Some ''api''\<rparr>) = Some (CannotChangeField ''Name'')
   \<and> fst (RunTask (Inr (Some Subnet_zero)) (\<lambda>_. Subnet_zero\<lparr>Subnet_CIDR := Some ''10.0.2.0/24''\<rparr>)
         (\<lambda>_. False) (\<lambda>a c. Subnet_CheckChanges a Subnet_zero c)
         (\<lambda>a c. ([] :: os_call list, None))) = [Discovering, Diffing, Validating]"
  using C2_immutable_change_rejected
          [where changes = "Subnet_zero\<lparr>Subnet_CIDR := Some ''10.0.2.0/24''\<rparr>"
             and a = Subnet_zero and e = Subnet_zero
             and lchanges = "LBListener_zero\<lparr>LBListener_Name := Some ''api''\<rparr>"
             and la = LBListener_zero and le = LBListener_zero
             and no_changes = "\<lambda>_. False" and render = "\<lambda>a c. ([] :: os_call list, None)"
             and lno_changes = "\<lambda>_. False" and lrender = "\<lambda>a c. ([] :: os_call list, None)"]
  by (auto simp add: Subnet_zero_def LBListener_zero_def)

text \<open>
  Claim C3. When actual is nil and a field required at creation is unset in the expected
  task (Name, Network, CIDR of a Subnet, checked in that order; Name of a Disk),
  \<open>CheckChanges\<close> returns the required-field error naming the first unset field, and
  the run of the task ends after validation, before any apply routine.
\<close>

theorem C3_required_field_missing:
  "(Subnet_Name e = None \<longrightarrow>
      Subnet_CheckChanges None e changes = Some (RequiredField ''Name''))
   \<and> (Subnet_Name e \<noteq> None \<and> Subnet_Network e = None \<longrightarrow>
      Subnet_CheckChanges None e changes = Some (RequiredField ''Network''))
   \<and> (Subnet_Name e \<noteq> None \<and> Subnet_Network e \<noteq> None \<and> Subnet_CIDR e = None \<longrightarrow>
      Subnet_CheckChanges None e changes = Some (RequiredField ''CIDR''))
   \<and> (Disk_Name de = None \<longrightarrow>
      Disk_CheckChanges None de dchanges = Some (RequiredField ''Name''))
   \<and> (Subnet_Name e = None \<or> Subnet_Network e = None \<or> Subnet_CIDR e = None \<longrightarrow>
      (\<exists>f \<in> {''Name'', ''Network'', ''CIDR''}.
         RunTask (Inr None) diff no_changes (\<lambda>a c. Subnet_CheckChanges a e c) render
           = ([Discovering, Diffing, Validating], [], Failed (RequiredField f))))
   \<and> (Disk_Name de = None \<longrightarrow>
         RunTask (Inr None) ddiff dno_changes (\<lambda>a c. Disk_CheckChanges a de c) drender
           = ([Discovering, Diffing, Validating], [], Failed (RequiredField ''Name'')))"
  by (simp add: Subnet_CheckChanges_def Disk_CheckChanges_def RunTask_def)

theorem C3_required_field_missing_witness:
  "Subnet_CheckChanges None (Subnet_zero\<lparr>Subnet_Name := Some ''utility'', Subnet_CIDR := Some ''10.0.1.0/24''\<rparr>)
       (Subnet_zero\<lparr>Subnet_Name := Some ''utility'', Subnet_CIDR := Some ''10.0.1.0/24''\<rparr>)
     = Some (RequiredField ''Network'')
   \<and> Disk_CheckChanges None Disk_zero Disk_zero = Some (RequiredField ''Name'')
   \<and> RunTask (Inr None) (\<lambda>_. Disk_zero) (\<lambda>_. False) (\<lambda>a c. Disk_CheckChanges a Disk_zero c)
         (\<lambda>a c. Disk_RenderAzure \<lparr> Disk_List = (\<lambda>_. Inr []), Disk_CreateOrUpdate = (\<lambda>_ _ _. None),
                                     Region = ''westeurope'' \<rparr> a Disk_zero c)
       = ([Discovering, Diffing, Validating], [], Failed (RequiredField ''Name''))"
  using C3_required_field_missing
          [where e = "Subnet_zero\<lparr>Subnet_Name := Some ''utility'', Subnet_CIDR := Some ''10.0.1.0/24''\<rparr>"
             and changes = "Subnet_zero\<lparr>Subnet_Name := Some ''utility'', Subnet_CIDR := Some ''10.0.1.0/24''\<rparr>"
             and de = Disk_zero and dchanges = Disk_zero
             and diff = "\<lambda>_. Subnet_zero" and no_changes = "\<lambda>_. False"
             and render = "\<lambda>a c. ([] :: os_call list, None)"
             and ddiff = "\<lambda>_. Disk_zero" and dno_changes = "\<lambda>_. False"
             and drender = "\<lambda>a c. Disk_RenderAzure \<lparr> Disk_List = (\<lambda>_. Inr []),
                   Disk_CreateOrUpdate = (\<lambda>_ _ _. None), Region = ''westeurope'' \<rparr> a Disk_zero c"]
  by (auto simp add: Subnet_zero_def Disk_zero_def)


section \<open>Discovery\<close>

lemma find_disk_wellformed:
  "\<forall>v \<in> set ds. compute_Disk_Name v \<noteq> None \<Longrightarrow>
   find_disk (Some n) (map Some ds) = Inr (List.find (\<lambda>v. compute_Disk_Name v = Some n) ds)"
  by (induction ds) auto

lemma LBListener_Find_one:
  assumes "LBListener_Name s \<noteq> None"
    and "ListListeners cloud (LBListener_Find_opt s) = Inr [l]"
    and "OSListener_Pools l = pool # rest
         \<or> OSListener_Pools l = [] \<and> GetPool cloud (OSListener_DefaultPoolID l) = Inr pool"
    and "newLBPoolTask (LBListener_Lifecycle s) pool (LBListener_Pool s) = Inr poolTask"
  shows "snd (LBListener_Find newLBPoolTask cloud s)
         = Inr (Some \<lparr> LBListener_ID = Some (OSListener_ID l),
                        LBListener_Name = Some (OSListener_Name l),
                        LBListener_Port = Some (OSListener_ProtocolPort l),
                        LBListener_Pool = Some poolTask,
                        LBListener_Lifecycle = LBListener_Lifecycle s,
                        LBListener_AllowedCIDRs = sort (OSListener_AllowedCIDRs l) \<rparr>)"
  using assms
  by (auto simp add: LBListener_Find_def NewLBListenerTaskFromCloud_def Let_def)

lemma Subnet_Find_one:
  assumes "Subnet_Network s = Some net"
    and "ListSubnets cloud (Subnet_Find_opt s net) = Inr (Some [x])"
    and "GetNetwork cloud (OSSubnet_NetworkID x) = Inr network"
    and "newNetworkTask (Subnet_Lifecycle s) network (Subnet_Tag s) = Inr networkTask"
  shows "snd (Subnet_Find newNetworkTask cloud s)
         = Inr (Some \<lparr> Subnet_ID = Some (OSSubnet_ID x),
                        Subnet_Name = Some (OSSubnet_Name x),
                        Subnet_Network = Some networkTask,
                        Subnet_CIDR = Some (OSSubnet_CIDR x),
                        Subnet_DNSServers = Some (map Some (OSSubnet_DNSNameservers x)),
                        Subnet_Tag = Some (if ValueOf (Subnet_Tag s) \<in> set (OSSubnet_Tags x)
                                           then ValueOf (Subnet_Tag s) else []),
                        Subnet_Lifecycle = Subnet_Lifecycle s \<rparr>)"
  using assms
  by (simp add: Subnet_Find_def NewSubnetTaskFromCloud_def Let_def)

lemma Disk_Find_first:
  assumes "Disk_ResourceGroup d = Some rg" and "ResourceGroup_Name rg = Some rgName"
    and "Disk_Name d = Some n" and "Disk_List cloud rgName = Inr (map Some ds)"
    and "\<forall>v \<in> set ds. compute_Disk_Name v \<noteq> None"
  shows "Disk_Find cloud d =
          (case List.find (\<lambda>v. compute_Disk_Name v = Some n) ds of
             None \<Rightarrow> Inr None
           | Some found \<Rightarrow>
              (case compute_Disk_Properties found of
                 None \<Rightarrow> Inl NilPointerPanic
               | Some props \<Rightarrow>
                   Inr (Some \<lparr> Disk_Name = Some n,
                               Disk_Lifecycle = Disk_Lifecycle d,
                               Disk_ResourceGroup = Some \<lparr> ResourceGroup_Name = Some rgName \<rparr>,
                               Disk_SizeGB = DiskProperties_DiskSizeGB props,
                               Disk_Tags = compute_Disk_Tags found,
                               Disk_VolumeType = (case compute_Disk_SKU found of
                                                    None \<Rightarrow> None | Some sku \<Rightarrow> DiskSKU_Name sku),
                               Disk_Zones = compute_Disk_Zones found \<rparr>)))"
  using assms
  by (simp add: Disk_Find_def find_disk_wellformed split: option.splits)

text \<open>
  Claim C4, as the code has it. \<open>LBListener.Find\<close> returns nil when the task has no
  name or the listing is empty, the actual task built from the listener when the listing
  has exactly one (and its pool task can be built), and the error "Multiple listeners
  found" when it has more than one. \<open>Subnet.Find\<close> returns nil when the listing is nil,
  the actual task built from the subnet when the listing has exactly one (and its network
  task can be built), and the error "found multiple subnets" when it has more than one.
  \<open>Disk.Find\<close> has no ambiguity error: over a well-formed listing it returns nil exactly
  when no disk of the resource group has the task's name, and otherwise the task built
  from the first disk with that name.
\<close>

theorem C4_discovery_results:
  "(LBListener_Name ls = None \<longrightarrow> LBListener_Find newLBPoolTask cloud ls = (ls, Inr None))
   \<and> (LBListener_Name ls \<noteq> None \<and> ListListeners cloud (LBListener_Find_opt ls) = Inr [] \<longrightarrow>
        LBListener_Find newLBPoolTask cloud ls = (ls, Inr None))
   \<and> (LBListener_Name ls \<noteq> None \<and> ListListeners cloud (LBListener_Find_opt ls) = Inr [l]
        \<and> (OSListener_Pools l = pool # rest
            \<or> OSListener_Pools l = [] \<and> GetPool cloud (OSListener_DefaultPoolID l) = Inr pool)
        \<and> newLBPoolTask (LBListener_Lifecycle ls) pool (LBListener_Pool ls) = Inr poolTask \<longrightarrow>
        snd (LBListener_Find newLBPoolTask cloud ls)
          = Inr (Some \<lparr> LBListener_ID = Some (OSListener_ID l),
                         LBListener_Name = Some (OSListener_Name l),
                         LBListener_Port = Some (OSListener_ProtocolPort l),
                         LBListener_Pool = Some poolTask,
                         LBListener_Lifecycle = LBListener_Lifecycle ls,
                         LBListener_AllowedCIDRs = sort (OSListener_AllowedCIDRs l) \<rparr>))
   \<and> (LBListener_Name ls \<noteq> None \<and> ListListeners cloud (LBListener_Find_opt ls) = Inr listenerList
        \<and> length listenerList > 1 \<longrightarrow>
        LBListener_Find newLBPoolTask cloud ls
          = (ls, Inl (Errorf ''Multiple listeners found with name %s''
                        [ValueOf (LBListener_Name ls)] None)))
   \<and> (Subnet_Network s = Some net \<and> ListSubnets cloud (Subnet_Find_opt s net) = Inr None \<longrightarrow>
        Subnet_Find newNetworkTask cloud s = (s, Inr None))
   \<and> (Subnet_Network s = Some net \<and> ListSubnets cloud (Subnet_Find_opt s net) = Inr (Some [x])
        \<and> GetNetwork cloud (OSSubnet_NetworkID x) = Inr network
        \<and> newNetworkTask (Subnet_Lifecycle s) network (Subnet_Tag s) = Inr networkTask \<longrightarrow>
        snd (Subnet_Find newNetworkTask cloud s)
          = Inr (Some \<lparr> Subnet_ID = Some (OSSubnet_ID x),
                         Subnet_Name = Some (OSSubnet_Name x),
                         Subnet_Network = Some networkTask,
                         Subnet_CIDR = Some (OSSubnet_CIDR x),
                         Subnet_DNSServers = Some (map Some (OSSubnet_DNSNameservers x)),
                         Subnet_Tag = Some (if ValueOf (Subnet_Tag s) \<in> set (OSSubnet_Tags x)
                                            then ValueOf (Subnet_Tag s) else []),
                         Subnet_Lifecycle = Subnet_Lifecycle s \<rparr>))
   \<and> (Subnet_Network s = Some net \<and> ListSubnets cloud (Subnet_Find_opt s net) = Inr (Some rs)
        \<and> length rs > 1 \<longrightarrow>
        Subnet_Find newNetworkTask cloud s
          = (s, Inl (Errorf ''found multiple subnets with name: %s'' [ValueOf (Subnet_Name s)] None)))
   \<and> (Disk_ResourceGroup d = Some rg \<and> ResourceGroup_Name rg = Some rgName
        \<and> Disk_Name d = Some n \<and> Disk_List azure rgName = Inr (map Some ds)
        \<and> (\<forall>v \<in> set ds. compute_Disk_Name v \<noteq> None) \<longrightarrow>
        (Disk_Find azure d = Inr None \<longleftrightarrow> (\<forall>v \<in> set ds. compute_Disk_Name v \<noteq> Some n))
        \<and> Disk_Find azure d =
            (case List.find (\<lambda>v. compute_Disk_Name v = Some n) ds of
               None \<Rightarrow> Inr None
             | Some found \<Rightarrow>
                (case compute_Disk_Properties found of
                   None \<Rightarrow> Inl NilPointerPanic
                 | Some props \<Rightarrow>
                     Inr (Some \<lparr> Disk_Name = Some n,
                                 Disk_Lifecycle = Disk_Lifecycle d,
                                 Disk_ResourceGroup = Some \<lparr> ResourceGroup_Name = Some rgName \<rparr>,
                                 Disk_SizeGB = DiskProperties_DiskSizeGB props,
                                 Disk_Tags = compute_Disk_Tags found,
                                 Disk_VolumeType = (case compute_Disk_SKU found of
                                                      None \<Rightarrow> None | Some sku \<Rightarrow> DiskSKU_Name sku),
                                 Disk_Zones = compute_Disk_Zones found \<rparr>))))"
proof -
  have L1: "LBListener_Name ls = None \<longrightarrow> LBListener_Find newLBPoolTask cloud ls = (ls, Inr None)"
    by (simp add: LBListener_Find_def)
  have L2: "LBListener_Name ls \<noteq> None \<and> ListListeners cloud (LBListener_Find_opt ls) = Inr [] \<longrightarrow>
        LBListener_Find newLBPoolTask cloud ls = (ls, Inr None)"
    by (auto simp add: LBListener_Find_def)
  have L3: "LBListener_Name ls \<noteq> None \<and> ListListeners cloud (LBListener_Find_opt ls) = Inr [l]
        \<and> (OSListener_Pools l = pool # rest
            \<or> OSListener_Pools l = [] \<and> GetPool cloud (OSListener_DefaultPoolID l) = Inr pool)
        \<and> newLBPoolTask (LBListener_Lifecycle ls) pool (LBListener_Pool ls) = Inr poolTask \<longrightarrow>
        snd (LBListener_Find newLBPoolTask cloud ls)
          = Inr (Some \<lparr> LBListener_ID = Some (OSListener_ID l),
                         LBListener_Name = Some (OSListener_Name l),
                         LBListener_Port = Some (OSListener_ProtocolPort l),
                         LBListener_Pool = Some poolTask,
                         LBListener_Lifecycle = LBListener_Lifecycle ls,
                         LBListener_AllowedCIDRs = sort (OSListener_AllowedCIDRs l) \<rparr>)"
    by (intro impI, elim conjE, rule LBListener_Find_one)
  have L4: "LBListener_Name ls \<noteq> None \<and> ListListeners cloud (LBListener_Find_opt ls) = Inr listenerList
        \<and> length listenerList > 1 \<longrightarrow>
        LBListener_Find newLBPoolTask cloud ls
          = (ls, Inl (Errorf ''Multiple listeners found with name %s''
                        [ValueOf (LBListener_Name ls)] None))"
    by (auto simp add: LBListener_Find_def)
  have S1: "Subnet_Network s = Some net \<and> ListSubnets cloud (Subnet_Find_opt s net) = Inr None \<longrightarrow>
        Subnet_Find newNetworkTask cloud s = (s, Inr None)"
    by (auto simp add: Subnet_Find_def)
  have S3: "Subnet_Network s = Some net \<and> ListSubnets cloud (Subnet_Find_opt s net) = Inr (Some [x])
        \<and> GetNetwork cloud (OSSubnet_NetworkID x) = Inr network
        \<and> newNetworkTask (Subnet_Lifecycle s) network (Subnet_Tag s) = Inr networkTask \<longrightarrow>
        snd (Subnet_Find newNetworkTask cloud s)
          = Inr (Some \<lparr> Subnet_ID = Some (OSSubnet_ID x),
                         Subnet_Name = Some (OSSubnet_Name x),
                         Subnet_Network = Some networkTask,
                         Subnet_CIDR = Some (OSSubnet_CIDR x),
                         Subnet_DNSServers = Some (map Some (OSSubnet_DNSNameservers x)),
                         Subnet_Tag = Some (if ValueOf (Subnet_Tag s) \<in> set (OSSubnet_Tags x)
                                            then ValueOf (Subnet_Tag s) else []),
                         Subnet_Lifecycle = Subnet_Lifecycle s \<rparr>)"
    by (intro impI, elim conjE, rule Subnet_Find_one)
  have S4: "Subnet_Network s = Some net \<and> ListSubnets cloud (Subnet_Find_opt s net) = Inr (Some rs)
        \<and> length rs > 1 \<longrightarrow>
        Subnet_Find newNetworkTask cloud s
          = (s, Inl (Errorf ''found multiple subnets with name: %s'' [ValueOf (Subnet_Name s)] None))"
    by (auto simp add: Subnet_Find_def)
  have D: "Disk_ResourceGroup d = Some rg \<and> ResourceGroup_Name rg = Some rgName
        \<and> Disk_Name d = Some n \<and> Disk_List azure rgName = Inr (map Some ds)
        \<and> (\<forall>v \<in> set ds. compute_Disk_Name v \<noteq> None) \<longrightarrow>
        (Disk_Find azure d = Inr None \<longleftrightarrow> (\<forall>v \<in> set ds. compute_Disk_Name v \<noteq> Some n))
        \<and> Disk_Find azure d =
            (case List.find (\<lambda>v. compute_Disk_Name v = Some n) ds of
               None \<Rightarrow> Inr None
             | Some found \<Rightarrow>
                (case compute_Disk_Properties found of
                   None \<Rightarrow> Inl NilPointerPanic
                 | Some props \<Rightarrow>
                     Inr (Some \<lparr> Disk_Name = Some n,
                                 Disk_Lifecycle = Disk_Lifecycle d,
                                 Disk_ResourceGroup = Some \<lparr> ResourceGroup_Name = Some rgName \<rparr>,
                                 Disk_SizeGB = DiskProperties_DiskSizeGB props,
                                 Disk_Tags = compute_Disk_Tags found,
                                 Disk_VolumeType = (case compute_Disk_SKU found of
                                                      None \<Rightarrow> None | Some sku \<Rightarrow> DiskSKU_Name sku),
                                 Disk_Zones = compute_Disk_Zones found \<rparr>)))"
  proof (intro impI, elim conjE)
    assume h: "Disk_ResourceGroup d = Some rg" "ResourceGroup_Name rg = Some rgName"
      "Disk_Name d = Some n" "Disk_List azure rgName = Inr (map Some ds)"
      "\<forall>v \<in> set ds. compute_Disk_Name v \<noteq> None"
    note eq = Disk_Find_first [OF h]
    have "Disk_Find azure d = Inr None \<longleftrightarrow> (\<forall>v \<in> set ds. compute_Disk_Name v \<noteq> Some n)"
    proof (cases "List.find (\<lambda>v. compute_Disk_Name v = Some n) ds")
      case None
      then have "Disk_Find azure d = Inr None"
        using eq by simp
      moreover have "\<forall>v \<in> set ds. compute_Disk_Name v \<noteq> Some n"
        using None by (simp add: find_None_iff)
      ultimately show ?thesis by blast
    next
      case (Some found)
      then have "\<exists>v \<in> set ds. compute_Disk_Name v = Some n"
        by (auto simp add: find_Some_iff)
      moreover have "Disk_Find azure d \<noteq> Inr None"
        using eq Some by (simp split: option.splits)
      ultimately show ?thesis by blast
    qed
    with eq show "(Disk_Find azure d = Inr None \<longleftrightarrow> (\<forall>v \<in> set ds. compute_Disk_Name v \<noteq> Some n))
        \<and> Disk_Find azure d =
            (case List.find (\<lambda>v. compute_Disk_Name v = Some n) ds of
               None \<Rightarrow> Inr None
             | Some found \<Rightarrow>
                (case compute_Disk_Properties found of
                   None \<Rightarrow> Inl NilPointerPanic
                 | Some props \<Rightarrow>
                     Inr (Some \<lparr> Disk_Name = Some n,
                                 Disk_Lifecycle = Disk_Lifecycle d,
                                 Disk_ResourceGroup = Some \<lparr> ResourceGroup_Name = Some rgName \<rparr>,
                                 Disk_SizeGB = DiskProperties_DiskSizeGB props,
                                 Disk_Tags = compute_Disk_Tags found,
                                 Disk_VolumeType = (case compute_Disk_SKU found of
                                                      None \<Rightarrow> None | Some sku \<Rightarrow> DiskSKU_Name sku),
                                 Disk_Zones = compute_Disk_Zones found \<rparr>)))"
      by (intro conjI)
  qed
  show ?thesis
    by (intro conjI L1 L2 L3 L4 S1 S3 S4 D)
qed

theorem C4_discovery_results_witness:
  "LBListener_Find newLBPoolTask_ok (cloud_listing None [os_listener ''l-1'', os_listener ''l-2''])
       listener_api
     = (listener_api, Inl (Errorf ''Multiple listeners found with name %s'' [''api''] None))
   \<and> Disk_Find (azure_listing [Some ((compute_disk_etcd 20)\<lparr>compute_Disk_Name := Some ''main''\<rparr>)])
         disk_etcd = Inr None"
  using C4_discovery_results
          [where ls = listener_api and newLBPoolTask = newLBPoolTask_ok
             and cloud = "cloud_listing None [os_listener ''l-1'', os_listener ''l-2'']"
             and listenerList = "[os_listener ''l-1'', os_listener ''l-2'']"
             and d = disk_etcd and rg = "\<lparr> ResourceGroup_Name = Some ''rg'' \<rparr>"
             and rgName = "''rg''" and n = "''etcd''"
             and azure = "azure_listing [Some ((compute_disk_etcd 20)\<lparr>compute_Disk_Name := Some ''main''\<rparr>)]"
             and ds = "[(compute_disk_etcd 20)\<lparr>compute_Disk_Name := Some ''main''\<rparr>]"]
  by (simp add: listener_api_def cloud_listing_def LBListener_Find_opt_def ValueOf_def
        disk_etcd_def azure_listing_def compute_disk_etcd_def)

text \<open>
  Claim C4, as stated, fails for \<open>Disk.Find\<close>: with two disks of the task's name in the
  listing it returns the task built from the first (here the one of 20 GB, which is the
  expected task itself) and no ambiguity error.
\<close>

theorem C4_Disk_Find_two_matches_counterexample:
  "Disk_Find (azure_listing [Some (compute_disk_etcd 20), Some (compute_disk_etcd 30)]) disk_etcd
     = Inr (Some disk_etcd)"
  by (simp add: Disk_Find_def azure_listing_def compute_disk_etcd_def disk_etcd_def)

text \<open>
  Claim C9. \<open>Subnet.Find\<close> returns (nil, nil) only when the listing is a nil slice; for
  a non-nil listing whose length is not 1, the empty one included, it returns the error
  "found multiple subnets" (and leaves the task as it was).
\<close>

theorem C9_Subnet_Find_only_nil_listing_is_absent:
  "(snd (Subnet_Find newNetworkTask cloud s) = Inr None \<longleftrightarrow>
      (\<exists>network. Subnet_Network s = Some network
          \<and> ListSubnets cloud (Subnet_Find_opt s network) = Inr None))
   \<and> (\<forall>network rs. Subnet_Network s = Some network
          \<and> ListSubnets cloud (Subnet_Find_opt s network) = Inr (Some rs) \<and> length rs \<noteq> 1 \<longrightarrow>
        snd (Subnet_Find newNetworkTask cloud s)
          = Inl (Errorf ''found multiple subnets with name: %s'' [ValueOf (Subnet_Name s)] None))
   \<and> (\<forall>network. Subnet_Network s = Some network
          \<and> ListSubnets cloud (Subnet_Find_opt s network) = Inr (Some []) \<longrightarrow>
        Subnet_Find newNetworkTask cloud s
          = (s, Inl (Errorf ''found multiple subnets with name: %s'' [ValueOf (Subnet_Name s)] None)))"
  by (auto simp add: Subnet_Find_def NewSubnetTaskFromCloud_def Let_def
           split: option.splits sum.splits prod.splits)

theorem C9_Subnet_Find_only_nil_listing_is_absent_witness:
  "Subnet_Find newNetworkTask_ok (cloud_listing (Some []) []) subnet_utility
     = (subnet_utility, Inl (Errorf ''found multiple subnets with name: %s'' [''utility''] None))
   \<and> snd (Subnet_Find newNetworkTask_ok (cloud_listing None []) subnet_utility) = Inr None"
  using C9_Subnet_Find_only_nil_listing_is_absent
          [of newNetworkTask_ok "cloud_listing (Some []) []" subnet_utility]
        C9_Subnet_Find_only_nil_listing_is_absent
          [of newNetworkTask_ok "cloud_listing None []" subnet_utility]
  by (simp add: cloud_listing_def subnet_utility_def ValueOf_def)

section \<open>The direct-apply backend\<close>

text \<open>\<open>Disk.RenderAzure\<close> builds its request from the expected task alone: whether an
  unchanged disk is left alone is decided by the run of the task, not by the routine.\<close>

lemma Disk_RenderAzure_reads_expected_only:
  "Disk_RenderAzure azure a e changes = Disk_RenderAzure azure a' e changes'"
  by (simp add: Disk_RenderAzure_def)

text \<open>
  Claim C1. A task whose discovered actual state is non-nil and whose changes object is
  empty goes through discovery, diffing and validation and is done: its apply routine is
  not invoked and no cloud call is made. This holds for the Azure disk, whose
  \<open>RenderAzure\<close> would not itself look at actual or changes, and for the LBListener.
  \<open>LBListener.RenderOpenstack\<close>, moreover, when it is given an existing listener and an
  empty changes object, issues no cloud mutation: it asks \<open>UseLoadBalancerVIPACL\<close> and
  leaves the expected task as it was.
\<close>

theorem C1_idempotent_apply:
  "(Disk_no_changes (diff (Some da)) \<longrightarrow>
      fst (snd (RunTask (Inr (Some da)) diff Disk_no_changes
                  (\<lambda>a c. Disk_CheckChanges a de c) (\<lambda>a c. Disk_RenderAzure azure a de c))) = []
      \<and> Rendering \<notin> set (fst (RunTask (Inr (Some da)) diff Disk_no_changes
                  (\<lambda>a c. Disk_CheckChanges a de c) (\<lambda>a c. Disk_RenderAzure azure a de c)))
      \<and> snd (snd (RunTask (Inr (Some da)) diff Disk_no_changes
                  (\<lambda>a c. Disk_CheckChanges a de c) (\<lambda>a c. Disk_RenderAzure azure a de c))) = Done)
   \<and> (LBListener_no_changes (ldiff (Some la)) \<longrightarrow>
      fst (snd (RunTask (Inr (Some la)) ldiff LBListener_no_changes
                  (\<lambda>a c. LBListener_CheckChanges a le c)
                  (\<lambda>a c. (fst (LBListener_RenderOpenstack cloud a le c),
                           snd (snd (LBListener_RenderOpenstack cloud a le c)))))) = []
      \<and> Rendering \<notin> set (fst (RunTask (Inr (Some la)) ldiff LBListener_no_changes
                  (\<lambda>a c. LBListener_CheckChanges a le c)
                  (\<lambda>a c. (fst (LBListener_RenderOpenstack cloud a le c),
                           snd (snd (LBListener_RenderOpenstack cloud a le c)))))))
   \<and> (LBListener_no_changes changes \<longrightarrow>
      LBListener_RenderOpenstack cloud (Some a) e changes
        = ([Call_UseLoadBalancerVIPACL], e,
           (case UseLoadBalancerVIPACL cloud of Inl err \<Rightarrow> Some err | Inr _ \<Rightarrow> None))
      \<and> filter os_mutation (fst (LBListener_RenderOpenstack cloud (Some a) e changes)) = [])"
proof -
  have D: "Disk_no_changes (diff (Some da)) \<longrightarrow>
      RunTask (Inr (Some da)) diff Disk_no_changes
        (\<lambda>a c. Disk_CheckChanges a de c) (\<lambda>a c. Disk_RenderAzure azure a de c)
      = ([Discovering, Diffing, Validating], [], Done)"
    by (simp add: RunTask_def Disk_CheckChanges_def Disk_no_changes_def Let_def)
  have L: "LBListener_no_changes (ldiff (Some la)) \<longrightarrow>
      RunTask (Inr (Some la)) ldiff LBListener_no_changes
        (\<lambda>a c. LBListener_CheckChanges a le c)
        (\<lambda>a c. (fst (LBListener_RenderOpenstack cloud a le c),
                 snd (snd (LBListener_RenderOpenstack cloud a le c))))
      = ([Discovering, Diffing, Validating], [], Done)"
    by (simp add: RunTask_def LBListener_CheckChanges_def LBListener_no_changes_def Let_def)
  have R: "LBListener_no_changes changes \<longrightarrow>
      LBListener_RenderOpenstack cloud (Some a) e changes
        = ([Call_UseLoadBalancerVIPACL], e,
           (case UseLoadBalancerVIPACL cloud of Inl err \<Rightarrow> Some err | Inr _ \<Rightarrow> None))
      \<and> filter os_mutation (fst (LBListener_RenderOpenstack cloud (Some a) e changes)) = []"
    by (auto simp add: LBListener_RenderOpenstack_def LBListener_no_changes_def split: sum.splits)
  from D L R show ?thesis by simp
qed

theorem C1_idempotent_apply_witness:
  "RunTask (Inr (Some disk_etcd)) (\<lambda>_. Disk_zero) Disk_no_changes
       (\<lambda>a c. Disk_CheckChanges a disk_etcd c)
       (\<lambda>a c. Disk_RenderAzure (azure_listing [Some (compute_disk_etcd 20)]) a disk_etcd c)
     = ([Discovering, Diffing, Validating], [], Done)
   \<and> LBListener_RenderOpenstack (cloud_listing None [])
       (Some (listener_api\<lparr>LBListener_ID := Some ''l-1''\<rparr>))
       (listener_api\<lparr>LBListener_ID := Some ''l-1''\<rparr>) LBListener_zero
     = ([Call_UseLoadBalancerVIPACL], listener_api\<lparr>LBListener_ID := Some ''l-1''\<rparr>, None)"
proof -
  have z: "Disk_no_changes Disk_zero" "LBListener_no_changes LBListener_zero"
    by (simp_all add: Disk_no_changes_def Disk_zero_def LBListener_no_changes_def LBListener_zero_def)
  note t = C1_idempotent_apply
      [where diff = "\<lambda>_. Disk_zero" and da = disk_etcd and de = disk_etcd
         and azure = "azure_listing [Some (compute_disk_etcd 20)]"
         and ldiff = "\<lambda>_. LBListener_zero" and la = listener_api and le = listener_api
         and cloud = "cloud_listing None []" and changes = LBListener_zero
         and a = "listener_api\<lparr>LBListener_ID := Some ''l-1''\<rparr>"
         and e = "listener_api\<lparr>LBListener_ID := Some ''l-1''\<rparr>"]
  have s: "fst (RunTask (Inr (Some disk_etcd)) (\<lambda>_. Disk_zero) Disk_no_changes
       (\<lambda>a c. Disk_CheckChanges a disk_etcd c)
       (\<lambda>a c. Disk_RenderAzure (azure_listing [Some (compute_disk_etcd 20)]) a disk_etcd c))
     = [Discovering, Diffing, Validating]"
    using z by (simp add: RunTask_def Disk_CheckChanges_def Disk_zero_def)
  from t z s show ?thesis
    by (simp add: cloud_listing_def prod_eq_iff)
qed












section \<open>The template-emission backend\<close>

text \<open>What \<open>RenderTerraform\<close> does outside itself: the image lookup, the file of the user
  data, the builders of the device maps, and at last the block.\<close>

lemma renderUserData_events:
  "fst (renderUserData env e) = [] \<or>
   (\<exists>d. fst (renderUserData env e)
          = [Call_AddFileBytes ''aws_launch_template'' (ValueOf (LaunchTemplate_Name e)) ''user_data'' d True])"
  by (simp add: renderUserData_def split: option.splits sum.splits)

lemma renderBlockDevices_events:
  "fst (renderBlockDevices env e) = [Call_buildRootDevice] \<or>
   fst (renderBlockDevices env e)
     = [Call_buildRootDevice, Call_buildEphemeralDevices (ValueOf (InstanceType e))]"
  by (simp add: renderBlockDevices_def Let_def split: sum.splits)

lemma RenderTerraform_events:
  "\<exists>ev2 ev3 rest.
     fst (RenderTerraform env a e changes)
       = (case ImageID e of None \<Rightarrow> [] | Some i \<Rightarrow> [Call_ResolveImage i]) @ ev2 @ ev3 @ rest
     \<and> (ev2 = [] \<or> ev2 = fst (renderUserData env e))
     \<and> (ev3 = [] \<or> ev3 = fst (renderBlockDevices env e))
     \<and> (rest = [] \<or>
         (\<exists>img userData bds.
            ev2 = fst (renderUserData env e) \<and> ev3 = fst (renderBlockDevices env e)
            \<and> snd (renderBlockDevices env e) = Inr bds
            \<and> rest = [Call_RenderResource ''aws_launch_template'' (ValueOf (LaunchTemplate_Name e))
                       ((case LaunchTemplate_Tags e of
                           None \<Rightarrow> (\<lambda>tf. tf)
                         | Some tags \<Rightarrow>
                            (\<lambda>tf. tf\<lparr> tf_TagSpecifications :=
                                        [\<lparr> ts_ResourceType = Some ''instance'', ts_Tags = tags \<rparr>,
                                         \<lparr> ts_ResourceType = Some ''volume'', ts_Tags = tags \<rparr>],
                                      tf_Tags := Some tags \<rparr>))
                          ((renderFields env e img)
                             \<lparr> tf_UserData := userData, tf_BlockDeviceMappings := bds \<rparr>))]))"
proof -
  let ?ev1 = "case ImageID e of None \<Rightarrow> [] | Some i \<Rightarrow> [Call_ResolveImage i]"
  have ev1: "(case ImageID e of None \<Rightarrow> [] | Some _ \<Rightarrow> [Call_ResolveImage (ValueOf (ImageID e))]) = ?ev1"
    by (simp add: ValueOf_def split: option.splits)
  show ?thesis
  proof (cases "case ImageID e of None \<Rightarrow> Inr None
                | Some _ \<Rightarrow> (case ResolveImage env (ValueOf (ImageID e)) of
                              Inl err \<Rightarrow> Inl err | Inr im \<Rightarrow> Inr (ImageId im))")
    case (Inl err)
    then have "fst (RenderTerraform env a e changes) = ?ev1 @ [] @ [] @ []"
      by (simp add: RenderTerraform_def ev1 Let_def)
    then show ?thesis by blast
  next
    case (Inr img)
    show ?thesis
    proof (cases "renderUserData env e")
      case (Pair ev2 r2)
      show ?thesis
      proof (cases r2)
        case (Inl err)
        then have "fst (RenderTerraform env a e changes) = ?ev1 @ ev2 @ [] @ []"
          using Inr Pair by (simp add: RenderTerraform_def ev1 Let_def)
        moreover have "ev2 = fst (renderUserData env e)" using Pair by simp
        ultimately show ?thesis by blast
      next
        case r2: (Inr userData)
        show ?thesis
        proof (cases "renderBlockDevices env e")
          case p3: (Pair ev3 r3)
          show ?thesis
          proof (cases r3)
            case (Inl err)
            then have "fst (RenderTerraform env a e changes) = ?ev1 @ ev2 @ ev3 @ []"
              using Inr Pair r2 p3 by (simp add: RenderTerraform_def ev1 Let_def)
            moreover have "ev2 = fst (renderUserData env e)" using Pair by simp
            moreover have "ev3 = fst (renderBlockDevices env e)" using p3 by simp
            ultimately show ?thesis by blast
          next
            case r3: (Inr bds)
            have "fst (RenderTerraform env a e changes)
                  = ?ev1 @ ev2 @ ev3 @
                    [Call_RenderResource ''aws_launch_template'' (ValueOf (LaunchTemplate_Name e))
                       ((case LaunchTemplate_Tags e of
                           None \<Rightarrow> (\<lambda>tf. tf)
                         | Some tags \<Rightarrow>
                            (\<lambda>tf. tf\<lparr> tf_TagSpecifications :=
                                        [\<lparr> ts_ResourceType = Some ''instance'', ts_Tags = tags \<rparr>,
                                         \<lparr> ts_ResourceType = Some ''volume'', ts_Tags = tags \<rparr>],
                                      tf_Tags := Some tags \<rparr>))
                          ((renderFields env e img)
                             \<lparr> tf_UserData := userData, tf_BlockDeviceMappings := bds \<rparr>))]"
              using Inr Pair r2 p3 r3
              by (simp add: RenderTerraform_def ev1 Let_def split: option.splits)
            moreover have "ev2 = fst (renderUserData env e)" using Pair by simp
            moreover have "ev3 = fst (renderBlockDevices env e)" using p3 by simp
            moreover have "snd (renderBlockDevices env e) = Inr bds" using p3 r3 by simp
            ultimately show ?thesis by blast
          qed
        qed
      qed
    qed
  qed
qed

text \<open>
  Claim C6, as the code has it. \<open>LaunchTemplate.RenderTerraform\<close> makes no mutating call
  to the cloud: the only method of the cloud it calls is the image lookup
  \<open>ResolveImage\<close>, once, exactly when the expected task has an image; beyond that it
  hands the cloud to the device-map builders and writes to the target. This holds for
  every input (actual, expected, changes) and on every path, failing ones included.
\<close>

theorem C6_template_render_cloud_calls:
  "filter cloud_call (fst (RenderTerraform env a e changes))
     = (case ImageID e of None \<Rightarrow> [] | Some i \<Rightarrow> [Call_ResolveImage i])
   \<and> filter cloud_handed_over (fst (RenderTerraform env a e changes))
       \<in> {[], [Call_buildRootDevice],
           [Call_buildRootDevice, Call_buildEphemeralDevices (ValueOf (InstanceType e))]}"
proof -
  obtain ev2 ev3 rest where
    tr: "fst (RenderTerraform env a e changes)
          = (case ImageID e of None \<Rightarrow> [] | Some i \<Rightarrow> [Call_ResolveImage i]) @ ev2 @ ev3 @ rest"
    and ev2: "ev2 = [] \<or> ev2 = fst (renderUserData env e)"
    and ev3: "ev3 = [] \<or> ev3 = fst (renderBlockDevices env e)"
    and rest: "rest = [] \<or> (\<exists>n tf. rest = [Call_RenderResource ''aws_launch_template'' n tf])"
    using RenderTerraform_events [of env a e changes] by blast
  have c2: "filter cloud_call ev2 = []" and h2: "filter cloud_handed_over ev2 = []"
    using ev2 renderUserData_events [of env e] by auto
  have c3: "filter cloud_call ev3 = []"
    using ev3 renderBlockDevices_events [of env e] by auto
  have h3: "filter cloud_handed_over ev3
             \<in> {[], [Call_buildRootDevice],
                 [Call_buildRootDevice, Call_buildEphemeralDevices (ValueOf (InstanceType e))]}"
    using ev3 renderBlockDevices_events [of env e] by auto
  have c4: "filter cloud_call rest = []" and h4: "filter cloud_handed_over rest = []"
    using rest by auto
  have "filter cloud_call (fst (RenderTerraform env a e changes))
     = (case ImageID e of None \<Rightarrow> [] | Some i \<Rightarrow> [Call_ResolveImage i])"
    using c2 c3 c4 by (simp add: tr split: option.splits)
  moreover have "filter cloud_handed_over (fst (RenderTerraform env a e changes))
                   = filter cloud_handed_over ev3"
    using h2 h4 by (simp add: tr split: option.splits)
  ultimately show ?thesis
    using h3 by simp
qed

theorem C6_template_render_cloud_calls_witness:
  "filter cloud_call (fst (RenderTerraform (terraform_env_ok [] [] []) None
       (launch_template_nodes\<lparr>ImageID := None\<rparr>) launch_template_nodes)) = []"
  using C6_template_render_cloud_calls
          [of "terraform_env_ok [] [] []" None "launch_template_nodes\<lparr>ImageID := None\<rparr>"
              launch_template_nodes]
  by simp


text \<open>
  Claim C6, as stated, fails: for an expected task with an image the render calls the
  cloud's \<open>ResolveImage\<close>.
\<close>

theorem C6_ResolveImage_counterexample:
  "filter cloud_call (fst (RenderTerraform (terraform_env_ok [] [] []) None
       launch_template_nodes launch_template_nodes)) = [Call_ResolveImage ''ami-1'']"
  by (simp add: RenderTerraform_def renderUserData_def renderBlockDevices_def SortedKeys_def
        terraform_env_ok_def launch_template_nodes_def LaunchTemplate_zero_def ValueOf_def Let_def)

lemma rendered_block_append:
  "rendered_block xs = None \<Longrightarrow> rendered_block (xs @ ys) = rendered_block ys"
  by (induction xs rule: rendered_block.induct) auto

lemma RenderTerraform_rendered_block:
  assumes "rendered_block (fst (RenderTerraform env a e changes)) = Some tf"
  shows "\<exists>img userData bds.
           snd (renderBlockDevices env e) = Inr bds
           \<and> tf = (case LaunchTemplate_Tags e of
                     None \<Rightarrow> (\<lambda>tf. tf)
                   | Some tags \<Rightarrow>
                      (\<lambda>tf. tf\<lparr> tf_TagSpecifications :=
                                  [\<lparr> ts_ResourceType = Some ''instance'', ts_Tags = tags \<rparr>,
                                   \<lparr> ts_ResourceType = Some ''volume'', ts_Tags = tags \<rparr>],
                                tf_Tags := Some tags \<rparr>))
                    ((renderFields env e img)
                       \<lparr> tf_UserData := userData, tf_BlockDeviceMappings := bds \<rparr>)"
proof -
  obtain ev2 ev3 rest where
    tr: "fst (RenderTerraform env a e changes)
          = (case ImageID e of None \<Rightarrow> [] | Some i \<Rightarrow> [Call_ResolveImage i]) @ ev2 @ ev3 @ rest"
    and ev2: "ev2 = [] \<or> ev2 = fst (renderUserData env e)"
    and ev3: "ev3 = [] \<or> ev3 = fst (renderBlockDevices env e)"
    and rest: "rest = [] \<or>
         (\<exists>img userData bds.
            snd (renderBlockDevices env e) = Inr bds
            \<and> rest = [Call_RenderResource ''aws_launch_template'' (ValueOf (LaunchTemplate_Name e))
                       ((case LaunchTemplate_Tags e of
                           None \<Rightarrow> (\<lambda>tf. tf)
                         | Some tags \<Rightarrow>
                            (\<lambda>tf. tf\<lparr> tf_TagSpecifications :=
                                        [\<lparr> ts_ResourceType = Some ''instance'', ts_Tags = tags \<rparr>,
                                         \<lparr> ts_ResourceType = Some ''volume'', ts_Tags = tags \<rparr>],
                                      tf_Tags := Some tags \<rparr>))
                          ((renderFields env e img)
                             \<lparr> tf_UserData := userData, tf_BlockDeviceMappings := bds \<rparr>))])"
    using RenderTerraform_events [of env a e changes] by blast
  have n1: "rendered_block (case ImageID e of None \<Rightarrow> [] | Some i \<Rightarrow> [Call_ResolveImage i]) = None"
    by (simp split: option.splits)
  have n2: "rendered_block ev2 = None"
    using ev2 renderUserData_events [of env e] by auto
  have n3: "rendered_block ev3 = None"
    using ev3 renderBlockDevices_events [of env e] by auto
  have "rendered_block (fst (RenderTerraform env a e changes)) = rendered_block rest"
    by (simp only: tr rendered_block_append [OF n1] rendered_block_append [OF n2]
          rendered_block_append [OF n3])
  with assms have r: "rendered_block rest = Some tf" by simp
  then have "rest \<noteq> []" by auto
  with rest obtain img userData bds where
    b: "snd (renderBlockDevices env e) = Inr bds"
    and "rest = [Call_RenderResource ''aws_launch_template'' (ValueOf (LaunchTemplate_Name e))
                       ((case LaunchTemplate_Tags e of
                           None \<Rightarrow> (\<lambda>tf. tf)
                         | Some tags \<Rightarrow>
                            (\<lambda>tf. tf\<lparr> tf_TagSpecifications :=
                                        [\<lparr> ts_ResourceType = Some ''instance'', ts_Tags = tags \<rparr>,
                                         \<lparr> ts_ResourceType = Some ''volume'', ts_Tags = tags \<rparr>],
                                      tf_Tags := Some tags \<rparr>))
                          ((renderFields env e img)
                             \<lparr> tf_UserData := userData, tf_BlockDeviceMappings := bds \<rparr>))]"
    by blast
  with r have "tf = (case LaunchTemplate_Tags e of
                           None \<Rightarrow> (\<lambda>tf. tf)
                         | Some tags \<Rightarrow>
                            (\<lambda>tf. tf\<lparr> tf_TagSpecifications :=
                                        [\<lparr> ts_ResourceType = Some ''instance'', ts_Tags = tags \<rparr>,
                                         \<lparr> ts_ResourceType = Some ''volume'', ts_Tags = tags \<rparr>],
                                      tf_Tags := Some tags \<rparr>))
                          ((renderFields env e img)
                             \<lparr> tf_UserData := userData, tf_BlockDeviceMappings := bds \<rparr>)"
    by simp
  with b show ?thesis by blast
qed

lemma RenderTerraform_rendered_references:
  assumes "rendered_block (fst (RenderTerraform env a e changes)) = Some tf"
  shows "\<exists>img. tf_NetworkInterfaces tf = tf_NetworkInterfaces (renderFields env e img)
             \<and> tf_KeyName tf = tf_KeyName (renderFields env e img)
             \<and> tf_IAMInstanceProfile tf = tf_IAMInstanceProfile (renderFields env e img)"
proof -
  from RenderTerraform_rendered_block [OF assms] obtain img userData bds where
    "tf = (case LaunchTemplate_Tags e of
                     None \<Rightarrow> (\<lambda>tf. tf)
                   | Some tags \<Rightarrow>
                      (\<lambda>tf. tf\<lparr> tf_TagSpecifications :=
                                  [\<lparr> ts_ResourceType = Some ''instance'', ts_Tags = tags \<rparr>,
                                   \<lparr> ts_ResourceType = Some ''volume'', ts_Tags = tags \<rparr>],
                                tf_Tags := Some tags \<rparr>))
                    ((renderFields env e img)
                       \<lparr> tf_UserData := userData, tf_BlockDeviceMappings := bds \<rparr>)"
    by blast
  then have "tf_NetworkInterfaces tf = tf_NetworkInterfaces (renderFields env e img)
             \<and> tf_KeyName tf = tf_KeyName (renderFields env e img)
             \<and> tf_IAMInstanceProfile tf = tf_IAMInstanceProfile (renderFields env e img)"
    by (simp split: option.splits)
  then show ?thesis by blast
qed

lemma RenderTerraform_rendered_devices:
  assumes "rendered_block (fst (RenderTerraform env a e changes)) = Some tf"
  shows "snd (renderBlockDevices env e) = Inr (tf_BlockDeviceMappings tf)"
proof -
  from RenderTerraform_rendered_block [OF assms] obtain img userData bds where
    b: "snd (renderBlockDevices env e) = Inr bds"
    and "tf = (case LaunchTemplate_Tags e of
                     None \<Rightarrow> (\<lambda>tf. tf)
                   | Some tags \<Rightarrow>
                      (\<lambda>tf. tf\<lparr> tf_TagSpecifications :=
                                  [\<lparr> ts_ResourceType = Some ''instance'', ts_Tags = tags \<rparr>,
                                   \<lparr> ts_ResourceType = Some ''volume'', ts_Tags = tags \<rparr>],
                                tf_Tags := Some tags \<rparr>))
                    ((renderFields env e img)
                       \<lparr> tf_UserData := userData, tf_BlockDeviceMappings := bds \<rparr>)"
    by blast
  then have "tf_BlockDeviceMappings tf = bds"
    by (simp split: option.splits)
  with b show ?thesis by simp
qed

text \<open>When the render gets as far as the block: the image is resolved, the user data is
  read and the device maps are built without a nil entry.\<close>

lemma appendDevices_total:
  "(\<forall>key \<in> set keys. \<exists>b. mk key (index_map m key) = Inr b) \<Longrightarrow>
   \<exists>bds. appendDevices mk m keys acc = Inr bds"
  by (induction keys arbitrary: acc) auto

lemma index_map_SortedKeys:
  assumes "\<forall>(k, v) \<in> set m. v \<noteq> None" and "key \<in> set (SortedKeys m)"
  shows "index_map m key \<noteq> None"
proof -
  from assms(2) have "key \<in> fst ` set m" by (simp add: SortedKeys_def)
  then obtain v where v: "map_of m key = Some v"
    by (metis map_of_eq_None_iff not_Some_eq)
  then have "(key, v) \<in> set m" by (rule map_of_SomeD)
  with assms(1) have "v \<noteq> None" by auto
  with v show ?thesis by (simp add: index_map_def)
qed

lemma walk_total:
  assumes "\<forall>(k, v) \<in> set m. v \<noteq> None"
    and "\<forall>key v. \<exists>b. mk key (Some v) = Inr b"
  shows "\<exists>bds. appendDevices mk m (SortedKeys m) acc = Inr bds"
proof (rule appendDevices_total, rule ballI)
  fix key assume "key \<in> set (SortedKeys m)"
  then obtain v where "index_map m key = Some v"
    using index_map_SortedKeys [OF assms(1)] by blast
  then show "\<exists>b. mk key (index_map m key) = Inr b"
    using assms(2) by simp
qed

lemma renderBlockDevices_total:
  assumes "buildRootDevice env e = Inr root"
    and "buildAdditionalDevices env (BlockDeviceMappings e) = Inr additionals"
    and "buildEphemeralDevices env (ValueOf (InstanceType e)) = Inr ephemerals"
    and "\<forall>(k, v) \<in> set root \<union> set additionals \<union> set ephemerals. v \<noteq> None"
  shows "\<exists>bds. snd (renderBlockDevices env e) = Inr bds"
proof -
  have c: "\<forall>key v. \<exists>b. createTerraformLaunchTemplateBlockDevice key (Some v) = Inr b"
    by (simp add: createTerraformLaunchTemplateBlockDevice_def)
  have p: "\<forall>key v. \<exists>b. ephemeralBlockDevice key (Some v) = Inr b"
    by (simp add: ephemeralBlockDevice_def)
  have n: "\<forall>(k, v) \<in> set root. v \<noteq> None" "\<forall>(k, v) \<in> set additionals. v \<noteq> None"
    "\<forall>(k, v) \<in> set ephemerals. v \<noteq> None"
    using assms(4) by auto
  obtain bds1 where 1: "appendDevices createTerraformLaunchTemplateBlockDevice root
                          (SortedKeys root) [] = Inr bds1"
    using walk_total [of root createTerraformLaunchTemplateBlockDevice "[]"] n(1) c by blast
  obtain bds2 where 2: "appendDevices createTerraformLaunchTemplateBlockDevice additionals
                          (SortedKeys additionals) bds1 = Inr bds2"
    using walk_total [of additionals createTerraformLaunchTemplateBlockDevice bds1] n(2) c by blast
  obtain bds3 where 3: "appendDevices ephemeralBlockDevice ephemerals
                          (SortedKeys ephemerals) bds2 = Inr bds3"
    using walk_total [of ephemerals ephemeralBlockDevice bds2] n(3) p by blast
  have "snd (renderBlockDevices env e) = Inr bds3"
    using assms(1-3) 1 2 3 by (simp add: renderBlockDevices_def Let_def)
  then show ?thesis by blast
qed

lemma RenderTerraform_emits:
  assumes "ImageID e = None \<or> (\<exists>im. ResolveImage env (ValueOf (ImageID e)) = Inr im)"
    and "\<exists>userData. snd (renderUserData env e) = Inr userData"
    and "\<exists>bds. snd (renderBlockDevices env e) = Inr bds"
  shows "rendered_block (fst (RenderTerraform env a e changes)) \<noteq> None"
proof -
  obtain img where i: "(case ImageID e of
                          None \<Rightarrow> Inr None
                        | Some _ \<Rightarrow> (case ResolveImage env (ValueOf (ImageID e)) of
                                      Inl err \<Rightarrow> Inl err | Inr im \<Rightarrow> Inr (ImageId im))) = Inr img"
  proof (cases "ImageID e")
    case None
    then show ?thesis using that by simp
  next
    case (Some i)
    then obtain im where "ResolveImage env (ValueOf (ImageID e)) = Inr im"
      using assms(1) by auto
    then show ?thesis using that Some by simp
  qed
  obtain ev2 userData where u: "renderUserData env e = (ev2, Inr userData)"
    using assms(2) by (metis prod.collapse)
  obtain ev3 bds where b: "renderBlockDevices env e = (ev3, Inr bds)"
    using assms(3) by (metis prod.collapse)
  have n1: "rendered_block (case ImageID e of None \<Rightarrow> []
              | Some _ \<Rightarrow> [Call_ResolveImage (ValueOf (ImageID e))]) = None"
    by (simp split: option.splits)
  have n2: "rendered_block ev2 = None"
    using u renderUserData_events [of env e] by auto
  have n3: "rendered_block ev3 = None"
    using b renderBlockDevices_events [of env e] by auto
  obtain tf where "fst (RenderTerraform env a e changes)
      = (case ImageID e of None \<Rightarrow> [] | Some _ \<Rightarrow> [Call_ResolveImage (ValueOf (ImageID e))])
        @ ev2 @ ev3 @ [Call_RenderResource ''aws_launch_template'' (ValueOf (LaunchTemplate_Name e)) tf]"
    using i u b by (simp add: RenderTerraform_def Let_def)
  then have "rendered_block (fst (RenderTerraform env a e changes)) = Some tf"
    by (simp only: rendered_block_append [OF n1] rendered_block_append [OF n2]
          rendered_block_append [OF n3]) simp
  then show ?thesis by simp
qed

lemma with_reference_links_parts:
  "ResolveImage (with_reference_links sg key prof env) = ResolveImage env"
  "renderUserData (with_reference_links sg key prof env) e = renderUserData env e"
  "renderBlockDevices (with_reference_links sg key prof env) e = renderBlockDevices env e"
  by (simp_all add: with_reference_links_def renderUserData_def renderBlockDevices_def Let_def
        cong: sum.case_cong option.case_cong)


text \<open>
  Claim C7. \<open>LaunchTemplate.TerraformLink\<close> is the symbolic reference
  \<open>aws_launch_template.<name>.id\<close>. With the referenced task types linking as the spec
  says, every field of the expected task that references another task is emitted by
  \<open>RenderTerraform\<close> as a symbolic reference built from the resource type, the name of
  the referenced task and the attribute, and never from its identifier: the security
  groups of the network interface in order, the key name, and the name of the instance
  profile. The block is emitted whenever the image is resolved, the user data is read
  and the block devices are built.
\<close>

theorem C7_references_are_links:
  "LaunchTemplate_TerraformLink t
     = Some (LiteralProperty ''aws_launch_template'' (ValueOf (LaunchTemplate_Name t)) ''id'')
   \<and> (rendered_block (fst (RenderTerraform (with_reference_links sg key prof env) a e changes))
        = Some tf \<longrightarrow>
        (\<exists>ni. tf_NetworkInterfaces tf = [ni]
           \<and> ni_SecurityGroups ni
               = map (\<lambda>x. Some (LiteralProperty (fst sg) (ValueOf (task_Name x)) (snd sg)))
                   (SecurityGroups e))
        \<and> tf_KeyName tf
            = (case SSHKey e of
                 None \<Rightarrow> None
               | Some k \<Rightarrow> Some (LiteralProperty (fst key) (ValueOf (task_Name k)) (snd key)))
        \<and> tf_IAMInstanceProfile tf
            = (case IAMInstanceProfile e of
                 None \<Rightarrow> []
               | Some p \<Rightarrow>
                   [\<lparr> iam_Name = Some (LiteralProperty (fst prof) (ValueOf (task_Name p)) (snd prof)) \<rparr>])
        \<and> (\<forall>ni \<in> set (tf_NetworkInterfaces tf). \<forall>l \<in> set (ni_SecurityGroups ni). symbolic l)
        \<and> (SSHKey e \<noteq> None \<longrightarrow> symbolic (tf_KeyName tf))
        \<and> (\<forall>p \<in> set (tf_IAMInstanceProfile tf). symbolic (iam_Name p)))
   \<and> ((ImageID e = None \<or> (\<exists>im. ResolveImage env (ValueOf (ImageID e)) = Inr im))
        \<and> (\<exists>userData. snd (renderUserData env e) = Inr userData)
        \<and> (\<exists>bds. snd (renderBlockDevices env e) = Inr bds) \<longrightarrow>
        rendered_block (fst (RenderTerraform (with_reference_links sg key prof env) a e changes))
          \<noteq> None)"
proof (intro conjI impI)
  show "LaunchTemplate_TerraformLink t
     = Some (LiteralProperty ''aws_launch_template'' (ValueOf (LaunchTemplate_Name t)) ''id'')"
    by (simp add: LaunchTemplate_TerraformLink_def)
next
  let ?env = "with_reference_links sg key prof env"
  assume r: "rendered_block (fst (RenderTerraform ?env a e changes)) = Some tf"
  from RenderTerraform_rendered_references [OF r] obtain img where
    ni: "tf_NetworkInterfaces tf = tf_NetworkInterfaces (renderFields ?env e img)"
    and k: "tf_KeyName tf = tf_KeyName (renderFields ?env e img)"
    and iam: "tf_IAMInstanceProfile tf = tf_IAMInstanceProfile (renderFields ?env e img)"
    by blast
  show sg: "\<exists>ni. tf_NetworkInterfaces tf = [ni]
           \<and> ni_SecurityGroups ni
               = map (\<lambda>x. Some (LiteralProperty (fst sg) (ValueOf (task_Name x)) (snd sg)))
                   (SecurityGroups e)"
    by (simp add: ni renderFields_def with_reference_links_def reference_TerraformLink_def)
  show key: "tf_KeyName tf
            = (case SSHKey e of
                 None \<Rightarrow> None
               | Some k \<Rightarrow> Some (LiteralProperty (fst key) (ValueOf (task_Name k)) (snd key)))"
    by (simp add: k renderFields_def with_reference_links_def reference_TerraformLink_def
          cong: option.case_cong)
  show prof: "tf_IAMInstanceProfile tf
            = (case IAMInstanceProfile e of
                 None \<Rightarrow> []
               | Some p \<Rightarrow>
                   [\<lparr> iam_Name = Some (LiteralProperty (fst prof) (ValueOf (task_Name p)) (snd prof)) \<rparr>])"
    by (simp add: iam renderFields_def with_reference_links_def reference_TerraformLink_def
          cong: option.case_cong)
  show "\<forall>ni \<in> set (tf_NetworkInterfaces tf). \<forall>l \<in> set (ni_SecurityGroups ni). symbolic l"
    using sg by auto
  show "symbolic (tf_KeyName tf)" if "SSHKey e \<noteq> None"
    using that key by auto
  show "\<forall>p \<in> set (tf_IAMInstanceProfile tf). symbolic (iam_Name p)"
    using prof by (auto split: option.splits)
next
  assume h: "(ImageID e = None \<or> (\<exists>im. ResolveImage env (ValueOf (ImageID e)) = Inr im))
        \<and> (\<exists>userData. snd (renderUserData env e) = Inr userData)
        \<and> (\<exists>bds. snd (renderBlockDevices env e) = Inr bds)"
  show "rendered_block (fst (RenderTerraform (with_reference_links sg key prof env) a e changes))
          \<noteq> None"
    by (rule RenderTerraform_emits) (use h in \<open>simp_all add: with_reference_links_parts\<close>)
qed

theorem C7_references_are_links_witness:
  "(case rendered_block (fst (RenderTerraform
            (with_reference_links (''aws_security_group'', ''id'') (''aws_key_pair'', ''id'')
               (''aws_iam_instance_profile'', ''id'') (terraform_env_ok [] [] []))
            None launch_template_nodes launch_template_nodes)) of
      None \<Rightarrow> False
    | Some tf \<Rightarrow>
        map ni_SecurityGroups (tf_NetworkInterfaces tf)
          = [[Some (LiteralProperty ''aws_security_group'' ''nodes-sg'' ''id'')]]
        \<and> tf_KeyName tf = Some (LiteralProperty ''aws_key_pair'' ''admin'' ''id'')
        \<and> map iam_Name (tf_IAMInstanceProfile tf)
          = [Some (LiteralProperty ''aws_iam_instance_profile'' ''nodes-profile'' ''id'')]
        \<and> symbolic (tf_KeyName tf))"
proof -
  let ?env = "with_reference_links (''aws_security_group'', ''id'') (''aws_key_pair'', ''id'')
               (''aws_iam_instance_profile'', ''id'') (terraform_env_ok [] [] [])"
  have ok: "(ImageID launch_template_nodes = None
             \<or> (\<exists>im. ResolveImage (terraform_env_ok [] [] [])
                        (ValueOf (ImageID launch_template_nodes)) = Inr im))
        \<and> (\<exists>userData. snd (renderUserData (terraform_env_ok [] [] []) launch_template_nodes)
                         = Inr userData)
        \<and> (\<exists>bds. snd (renderBlockDevices (terraform_env_ok [] [] []) launch_template_nodes) = Inr bds)"
    by (simp add: renderUserData_def renderBlockDevices_def SortedKeys_def
        terraform_env_ok_def launch_template_nodes_def LaunchTemplate_zero_def Let_def)
  have "rendered_block (fst (RenderTerraform ?env None launch_template_nodes launch_template_nodes))
          \<noteq> None"
    using C7_references_are_links
            [where env = "terraform_env_ok [] [] []" and a = None and e = launch_template_nodes
               and changes = launch_template_nodes and t = launch_template_nodes
               and sg = "(''aws_security_group'', ''id'')" and key = "(''aws_key_pair'', ''id'')"
               and prof = "(''aws_iam_instance_profile'', ''id'')"] ok
    by blast
  then obtain tf where r: "rendered_block (fst (RenderTerraform ?env None
               launch_template_nodes launch_template_nodes)) = Some tf"
    by blast
  note c = C7_references_are_links
             [where env = "terraform_env_ok [] [] []" and a = None and e = launch_template_nodes
                and changes = launch_template_nodes and tf = tf and t = launch_template_nodes
                and sg = "(''aws_security_group'', ''id'')" and key = "(''aws_key_pair'', ''id'')"
                and prof = "(''aws_iam_instance_profile'', ''id'')"]
  from c r have "map ni_SecurityGroups (tf_NetworkInterfaces tf)
            = [[Some (LiteralProperty ''aws_security_group'' ''nodes-sg'' ''id'')]]"
    by (auto simp add: launch_template_nodes_def LaunchTemplate_zero_def ValueOf_def)
  moreover from c r have "tf_KeyName tf = Some (LiteralProperty ''aws_key_pair'' ''admin'' ''id'')"
    by (auto simp add: launch_template_nodes_def LaunchTemplate_zero_def ValueOf_def)
  moreover from c r have "map iam_Name (tf_IAMInstanceProfile tf)
            = [Some (LiteralProperty ''aws_iam_instance_profile'' ''nodes-profile'' ''id'')]"
    by (auto simp add: launch_template_nodes_def LaunchTemplate_zero_def ValueOf_def)
  ultimately show ?thesis
    using r by simp
qed


section \<open>Determinism of the template output\<close>

text \<open>Sorting by a key that no two elements share gives one result for every order of
  the input; two walks of one map have the same sorted keys and the same values.\<close>

lemma filter_same_key:
  "distinct (map f xs) \<Longrightarrow> k \<in> set xs \<Longrightarrow> filter (\<lambda>x. f k = f x) xs = [k]"
proof (induction xs)
  case Nil
  then show ?case by simp
next
  case (Cons x xs)
  show ?case
  proof (cases "k = x")
    case True
    have "f x \<notin> f ` set xs"
      using Cons.prems(1) by simp
    then have "filter (\<lambda>y. f x = f y) xs = []"
      by (auto simp add: filter_empty_conv)
    with True show ?thesis by simp
  next
    case False
    then have "k \<in> set xs" using Cons.prems(2) by simp
    moreover have "f x \<notin> f ` set xs" using Cons.prems(1) by simp
    then have "f k \<noteq> f x" using \<open>k \<in> set xs\<close> by (metis imageI)
    ultimately show ?thesis using Cons by simp
  qed
qed

lemma sort_key_distinct_keys:
  assumes "mset xs = mset ys" and "distinct (map f xs)"
  shows "sort_key f xs = sort_key f ys"
proof (rule properties_for_sort_key)
  show "mset (sort_key f ys) = mset xs" using assms(1) by simp
  show "sorted (map f (sort_key f ys))" by simp
  fix k assume k: "k \<in> set (sort_key f ys)"
  have dy: "distinct (map f ys)"
    using assms by (metis mset_eq_imp_distinct_iff mset_map)
  have ds: "distinct (map f (sort_key f ys))"
    using dy by (metis mset_eq_imp_distinct_iff mset_map mset_sort)
  have kx: "k \<in> set xs" using k assms(1) by (metis mset_eq_setD set_sort)
  show "filter (\<lambda>x. f k = f x) (sort_key f ys) = filter (\<lambda>x. f k = f x) xs"
    using filter_same_key [OF ds k] filter_same_key [OF assms(2) kx] by simp
qed

lemma orderLayer_same_set:
  assumes "distinct (map fst l1)" and "distinct (map fst l2)" and "set l1 = set l2"
  shows "orderLayer l1 = orderLayer l2"
proof -
  have "distinct l1" "distinct l2" using assms(1,2) by (simp_all add: distinct_map)
  then have "mset l1 = mset l2" using assms(3) by (simp add: set_eq_iff_mset_eq_distinct)
  then show ?thesis
    unfolding orderLayer_def using assms(1) by (rule sort_key_distinct_keys)
qed

lemma same_map_SortedKeys: "same_map m1 m2 \<Longrightarrow> SortedKeys m1 = SortedKeys m2"
proof -
  assume h: "same_map m1 m2"
  then have "distinct m1" "distinct m2" "set m1 = set m2"
    by (simp_all add: same_map_def distinct_map)
  then have "mset m1 = mset m2" by (simp add: set_eq_iff_mset_eq_distinct)
  then have "mset (map fst m1) = mset (map fst m2)" by (metis mset_map)
  then show ?thesis
    unfolding SortedKeys_def by (metis sorted_list_of_multiset_mset)
qed

lemma same_map_index_map: "same_map m1 m2 \<Longrightarrow> index_map m1 key = index_map m2 key"
proof -
  assume "same_map m1 m2"
  then have "map_of m1 = map_of m2"
    using map_of_inject_set [of m1 m2] by (simp add: same_map_def)
  then show ?thesis by (simp add: index_map_def)
qed

lemma same_map_appendDevices:
  "same_map m1 m2 \<Longrightarrow> appendDevices mk m1 keys acc = appendDevices mk m2 keys acc"
  by (induction keys arbitrary: acc) (auto simp add: same_map_index_map split: sum.splits)

lemma appendDevices_names:
  assumes "\<And>k v b. mk k v = Inr b \<Longrightarrow> bd_DeviceName b = Some k"
  shows "appendDevices mk m keys acc = Inr bds \<Longrightarrow>
         map bd_DeviceName bds = map bd_DeviceName acc @ map Some keys"
proof (induction keys arbitrary: acc)
  case Nil
  then show ?case by simp
next
  case (Cons key keys)
  then obtain b where b: "mk key (index_map m key) = Inr b"
    and r: "appendDevices mk m keys (acc @ [b]) = Inr bds"
    by (auto split: sum.splits)
  from Cons.IH [OF r] assms [OF b] show ?case by simp
qed

lemma Subnet_GetDependencies_set:
  "set (Subnet_GetDependencies tasks) = {t \<in> snd ` set tasks. is_Network t}"
  by (induction tasks rule: Subnet_GetDependencies.induct) auto

lemma LBListener_GetDependencies_set:
  "set (LBListener_GetDependencies tasks) = {t \<in> snd ` set tasks. is_LB t \<or> is_LBPool t}"
  by (induction tasks rule: LBListener_GetDependencies.induct) auto


lemma same_devices_cases:
  "same_devices r1 r2 \<Longrightarrow>
   (\<exists>err. r1 = Inl err \<and> r2 = Inl err) \<or> (\<exists>m1 m2. r1 = Inr m1 \<and> r2 = Inr m2 \<and> same_map m1 m2)"
  by (cases r1; cases r2) auto

lemma same_devices_walk:
  "same_devices r1 r2 \<Longrightarrow>
   (case r1 of Inl err \<Rightarrow> Inl err | Inr m \<Rightarrow> appendDevices mk m (SortedKeys m) acc)
   = (case r2 of Inl err \<Rightarrow> Inl err | Inr m \<Rightarrow> appendDevices mk m (SortedKeys m) acc)"
  using same_devices_cases [of r1 r2]
  by (auto simp add: same_map_SortedKeys same_map_appendDevices)

lemma renderBlockDevices_walks:
  "renderBlockDevices env e =
     (case (case buildRootDevice env e of
              Inl err \<Rightarrow> Inl err
            | Inr m \<Rightarrow> appendDevices createTerraformLaunchTemplateBlockDevice m (SortedKeys m) []) of
        Inl err \<Rightarrow> ([Call_buildRootDevice], Inl err)
      | Inr bds1 \<Rightarrow>
         (case (case buildAdditionalDevices env (BlockDeviceMappings e) of
                  Inl err \<Rightarrow> Inl err
                | Inr m \<Rightarrow> appendDevices createTerraformLaunchTemplateBlockDevice m (SortedKeys m) bds1) of
            Inl err \<Rightarrow> ([Call_buildRootDevice], Inl err)
          | Inr bds2 \<Rightarrow>
              ([Call_buildRootDevice, Call_buildEphemeralDevices (ValueOf (InstanceType e))],
               (case buildEphemeralDevices env (ValueOf (InstanceType e)) of
                  Inl err \<Rightarrow> Inl err
                | Inr m \<Rightarrow> appendDevices ephemeralBlockDevice m (SortedKeys m) bds2))))"
  by (simp add: renderBlockDevices_def Let_def split: sum.splits)

lemma renderBlockDevices_same:
  assumes "\<forall>x. same_devices (buildRootDevice env x) (root2 x)"
    and "\<forall>x. same_devices (buildAdditionalDevices env x) (additionals2 x)"
    and "\<forall>x. same_devices (buildEphemeralDevices env x) (ephemerals2 x)"
  shows "renderBlockDevices (env\<lparr> buildRootDevice := root2, buildAdditionalDevices := additionals2,
                                   buildEphemeralDevices := ephemerals2 \<rparr>) e
         = renderBlockDevices env e"
proof -
  have 1: "\<And>mk acc. (case root2 e of Inl err \<Rightarrow> Inl err | Inr m \<Rightarrow> appendDevices mk m (SortedKeys m) acc)
        = (case buildRootDevice env e of Inl err \<Rightarrow> Inl err | Inr m \<Rightarrow> appendDevices mk m (SortedKeys m) acc)"
    using assms(1) same_devices_walk [symmetric] by blast
  have 2: "\<And>mk acc x. (case additionals2 x of Inl err \<Rightarrow> Inl err | Inr m \<Rightarrow> appendDevices mk m (SortedKeys m) acc)
        = (case buildAdditionalDevices env x of Inl err \<Rightarrow> Inl err | Inr m \<Rightarrow> appendDevices mk m (SortedKeys m) acc)"
    using assms(2) same_devices_walk [symmetric] by blast
  have 3: "\<And>mk acc x. (case ephemerals2 x of Inl err \<Rightarrow> Inl err | Inr m \<Rightarrow> appendDevices mk m (SortedKeys m) acc)
        = (case buildEphemeralDevices env x of Inl err \<Rightarrow> Inl err | Inr m \<Rightarrow> appendDevices mk m (SortedKeys m) acc)"
    using assms(3) same_devices_walk [symmetric] by blast
  show ?thesis
    by (simp only: renderBlockDevices_walks) (simp add: 1 2 3 cong: sum.case_cong)
qed

lemma RenderTerraform_same:
  assumes "\<forall>x. same_devices (buildRootDevice env x) (root2 x)"
    and "\<forall>x. same_devices (buildAdditionalDevices env x) (additionals2 x)"
    and "\<forall>x. same_devices (buildEphemeralDevices env x) (ephemerals2 x)"
  shows "RenderTerraform (env\<lparr> buildRootDevice := root2, buildAdditionalDevices := additionals2,
                                buildEphemeralDevices := ephemerals2 \<rparr>) a e changes
         = RenderTerraform env a e changes"
proof -
  let ?env2 = "env\<lparr> buildRootDevice := root2, buildAdditionalDevices := additionals2,
                    buildEphemeralDevices := ephemerals2 \<rparr>"
  have b: "renderBlockDevices ?env2 e = renderBlockDevices env e"
    using assms by (rule renderBlockDevices_same)
  have u: "renderUserData ?env2 e = renderUserData env e"
    by (simp add: renderUserData_def cong: sum.case_cong option.case_cong)
  have f: "\<And>img. renderFields ?env2 e img = renderFields env e img"
    by (simp add: renderFields_def cong: option.case_cong)
  show ?thesis
    unfolding RenderTerraform_def b u f
    by (simp cong: sum.case_cong option.case_cong prod.case_cong)
qed

lemma renderBlockDevices_names:
  assumes "renderBlockDevices env e = (evs, Inr bds)"
  shows "\<exists>root additionals ephemerals.
           buildRootDevice env e = Inr root
           \<and> buildAdditionalDevices env (BlockDeviceMappings e) = Inr additionals
           \<and> buildEphemeralDevices env (ValueOf (InstanceType e)) = Inr ephemerals
           \<and> map bd_DeviceName bds
               = map Some (SortedKeys root @ SortedKeys additionals @ SortedKeys ephemerals)"
proof -
  have c: "\<And>k v b. createTerraformLaunchTemplateBlockDevice k v = Inr b \<Longrightarrow> bd_DeviceName b = Some k"
    by (auto simp add: createTerraformLaunchTemplateBlockDevice_def split: option.splits)
  have p: "\<And>k v b. ephemeralBlockDevice k v = Inr b \<Longrightarrow> bd_DeviceName b = Some k"
    by (auto simp add: ephemeralBlockDevice_def split: option.splits)
  from assms obtain root bds1 additionals bds2 ephemerals where
    r: "buildRootDevice env e = Inr root"
    and r1: "appendDevices createTerraformLaunchTemplateBlockDevice root (SortedKeys root) [] = Inr bds1"
    and a: "buildAdditionalDevices env (BlockDeviceMappings e) = Inr additionals"
    and a1: "appendDevices createTerraformLaunchTemplateBlockDevice additionals
               (SortedKeys additionals) bds1 = Inr bds2"
    and q: "buildEphemeralDevices env (ValueOf (InstanceType e)) = Inr ephemerals"
    and q1: "appendDevices ephemeralBlockDevice ephemerals (SortedKeys ephemerals) bds2 = Inr bds"
    by (auto simp add: renderBlockDevices_def Let_def split: sum.splits)
  have "map bd_DeviceName bds1 = map Some (SortedKeys root)"
    using appendDevices_names [OF c r1] by simp
  moreover have "map bd_DeviceName bds2 = map bd_DeviceName bds1 @ map Some (SortedKeys additionals)"
    using appendDevices_names [OF c a1] by simp
  moreover have "map bd_DeviceName bds = map bd_DeviceName bds2 @ map Some (SortedKeys ephemerals)"
    using appendDevices_names [OF p q1] by simp
  ultimately have "map bd_DeviceName bds
               = map Some (SortedKeys root @ SortedKeys additionals @ SortedKeys ephemerals)"
    by simp
  with r a q show ?thesis by blast
qed

text \<open>
  Claim C8, as the code has it. The blocks of a layer are emitted in the order of the
  key (task type, name), so two walks of one task map give the same output.
  \<open>RenderTerraform\<close> gives the same result for every order in which the device maps
  happen to be walked: the block-device mappings are appended in three groups, the root
  devices, then the additional devices, then the ephemeral devices, each group in sorted
  device-name order, and the block is emitted whenever the image is resolved, the user
  data is read and the maps are built without a nil entry. The dependencies
  \<open>Subnet.GetDependencies\<close> returns are the same set for every order of the task map.
\<close>

theorem C8_deterministic_template_output:
  "(same_map layer layer' \<longrightarrow> emitLayer emit layer = emitLayer emit layer')
   \<and> ((\<forall>x. same_devices (buildRootDevice env x) (root' x))
        \<and> (\<forall>x. same_devices (buildAdditionalDevices env x) (additionals' x))
        \<and> (\<forall>x. same_devices (buildEphemeralDevices env x) (ephemerals' x)) \<longrightarrow>
      RenderTerraform (env\<lparr> buildRootDevice := root', buildAdditionalDevices := additionals',
                             buildEphemeralDevices := ephemerals' \<rparr>) a e changes
        = RenderTerraform env a e changes)
   \<and> (rendered_block (fst (RenderTerraform env a e changes)) = Some tf \<longrightarrow>
      (\<exists>root additionals ephemerals.
          buildRootDevice env e = Inr root
          \<and> buildAdditionalDevices env (BlockDeviceMappings e) = Inr additionals
          \<and> buildEphemeralDevices env (ValueOf (InstanceType e)) = Inr ephemerals
          \<and> map bd_DeviceName (tf_BlockDeviceMappings tf)
              = map Some (SortedKeys root @ SortedKeys additionals @ SortedKeys ephemerals)))
   \<and> ((ImageID e = None \<or> (\<exists>im. ResolveImage env (ValueOf (ImageID e)) = Inr im))
        \<and> (\<exists>userData. snd (renderUserData env e) = Inr userData)
        \<and> buildRootDevice env e = Inr root
        \<and> buildAdditionalDevices env (BlockDeviceMappings e) = Inr additionals
        \<and> buildEphemeralDevices env (ValueOf (InstanceType e)) = Inr ephemerals
        \<and> (\<forall>(k, v) \<in> set root \<union> set additionals \<union> set ephemerals. v \<noteq> None) \<longrightarrow>
      (\<exists>block. rendered_block (fst (RenderTerraform env a e changes)) = Some block
          \<and> map bd_DeviceName (tf_BlockDeviceMappings block)
              = map Some (SortedKeys root @ SortedKeys additionals @ SortedKeys ephemerals)))
   \<and> sorted (SortedKeys (m :: devices)) \<and> set (SortedKeys m) = fst ` set m
   \<and> (set tasks = set tasks' \<longrightarrow>
        set (Subnet_GetDependencies tasks) = set (Subnet_GetDependencies tasks'))"
proof -
  have A: "same_map layer layer' \<longrightarrow> emitLayer emit layer = emitLayer emit layer'"
    using orderLayer_same_set [of layer layer'] by (simp add: emitLayer_def same_map_def)
  have B: "(\<forall>x. same_devices (buildRootDevice env x) (root' x))
        \<and> (\<forall>x. same_devices (buildAdditionalDevices env x) (additionals' x))
        \<and> (\<forall>x. same_devices (buildEphemeralDevices env x) (ephemerals' x)) \<longrightarrow>
      RenderTerraform (env\<lparr> buildRootDevice := root', buildAdditionalDevices := additionals',
                             buildEphemeralDevices := ephemerals' \<rparr>) a e changes
        = RenderTerraform env a e changes"
    by (intro impI, elim conjE, rule RenderTerraform_same)
  have names: "\<And>block. rendered_block (fst (RenderTerraform env a e changes)) = Some block \<Longrightarrow>
      \<exists>root additionals ephemerals.
          buildRootDevice env e = Inr root
          \<and> buildAdditionalDevices env (BlockDeviceMappings e) = Inr additionals
          \<and> buildEphemeralDevices env (ValueOf (InstanceType e)) = Inr ephemerals
          \<and> map bd_DeviceName (tf_BlockDeviceMappings block)
              = map Some (SortedKeys root @ SortedKeys additionals @ SortedKeys ephemerals)"
  proof -
    fix block
    assume "rendered_block (fst (RenderTerraform env a e changes)) = Some block"
    then have "snd (renderBlockDevices env e) = Inr (tf_BlockDeviceMappings block)"
      by (rule RenderTerraform_rendered_devices)
    then have "renderBlockDevices env e
                 = (fst (renderBlockDevices env e), Inr (tf_BlockDeviceMappings block))"
      by (metis prod.collapse)
    then show "\<exists>root additionals ephemerals.
          buildRootDevice env e = Inr root
          \<and> buildAdditionalDevices env (BlockDeviceMappings e) = Inr additionals
          \<and> buildEphemeralDevices env (ValueOf (InstanceType e)) = Inr ephemerals
          \<and> map bd_DeviceName (tf_BlockDeviceMappings block)
              = map Some (SortedKeys root @ SortedKeys additionals @ SortedKeys ephemerals)"
      by (rule renderBlockDevices_names)
  qed
  have C: "rendered_block (fst (RenderTerraform env a e changes)) = Some tf \<longrightarrow>
      (\<exists>root additionals ephemerals.
          buildRootDevice env e = Inr root
          \<and> buildAdditionalDevices env (BlockDeviceMappings e) = Inr additionals
          \<and> buildEphemeralDevices env (ValueOf (InstanceType e)) = Inr ephemerals
          \<and> map bd_DeviceName (tf_BlockDeviceMappings tf)
              = map Some (SortedKeys root @ SortedKeys additionals @ SortedKeys ephemerals))"
    using names by blast
  have P: "(ImageID e = None \<or> (\<exists>im. ResolveImage env (ValueOf (ImageID e)) = Inr im))
        \<and> (\<exists>userData. snd (renderUserData env e) = Inr userData)
        \<and> buildRootDevice env e = Inr root
        \<and> buildAdditionalDevices env (BlockDeviceMappings e) = Inr additionals
        \<and> buildEphemeralDevices env (ValueOf (InstanceType e)) = Inr ephemerals
        \<and> (\<forall>(k, v) \<in> set root \<union> set additionals \<union> set ephemerals. v \<noteq> None) \<longrightarrow>
      (\<exists>block. rendered_block (fst (RenderTerraform env a e changes)) = Some block
          \<and> map bd_DeviceName (tf_BlockDeviceMappings block)
              = map Some (SortedKeys root @ SortedKeys additionals @ SortedKeys ephemerals))"
  proof (intro impI, elim conjE)
    assume i: "ImageID e = None \<or> (\<exists>im. ResolveImage env (ValueOf (ImageID e)) = Inr im)"
      and u: "\<exists>userData. snd (renderUserData env e) = Inr userData"
      and r: "buildRootDevice env e = Inr root"
      and d: "buildAdditionalDevices env (BlockDeviceMappings e) = Inr additionals"
      and p: "buildEphemeralDevices env (ValueOf (InstanceType e)) = Inr ephemerals"
      and n: "\<forall>(k, v) \<in> set root \<union> set additionals \<union> set ephemerals. v \<noteq> None"
    have "\<exists>bds. snd (renderBlockDevices env e) = Inr bds"
      using r d p n by (rule renderBlockDevices_total)
    with i u have "rendered_block (fst (RenderTerraform env a e changes)) \<noteq> None"
      by (rule RenderTerraform_emits)
    then obtain block where b: "rendered_block (fst (RenderTerraform env a e changes)) = Some block"
      by blast
    from names [OF b] r d p
    have "map bd_DeviceName (tf_BlockDeviceMappings block)
              = map Some (SortedKeys root @ SortedKeys additionals @ SortedKeys ephemerals)"
      by auto
    with b show "\<exists>block. rendered_block (fst (RenderTerraform env a e changes)) = Some block
          \<and> map bd_DeviceName (tf_BlockDeviceMappings block)
              = map Some (SortedKeys root @ SortedKeys additionals @ SortedKeys ephemerals)"
      by blast
  qed
  have D: "sorted (SortedKeys m)"
    by (simp add: SortedKeys_def)
  have E: "set (SortedKeys m) = fst ` set m"
    by (simp add: SortedKeys_def)
  have F: "set tasks = set tasks' \<longrightarrow>
        set (Subnet_GetDependencies tasks) = set (Subnet_GetDependencies tasks')"
    by (simp add: Subnet_GetDependencies_set)
  show ?thesis
    by (intro conjI A B C P D E F)
qed

theorem C8_deterministic_template_output_witness:
  "RenderTerraform (terraform_env_ok [(''/dev/sda'', volume ''gp3''), (''/dev/sdb'', volume ''gp2'')] [] [])
       None launch_template_nodes launch_template_nodes
     = RenderTerraform (terraform_env_ok [(''/dev/sdb'', volume ''gp2''), (''/dev/sda'', volume ''gp3'')] [] [])
         None launch_template_nodes launch_template_nodes
   \<and> (case rendered_block (fst (RenderTerraform
          (terraform_env_ok [(''/dev/sdb'', volume ''gp2''), (''/dev/sda'', volume ''gp3'')] [] [])
          None launch_template_nodes launch_template_nodes)) of
        None \<Rightarrow> False
      | Some block \<Rightarrow>
          map bd_DeviceName (tf_BlockDeviceMappings block) = [Some ''/dev/sda'', Some ''/dev/sdb''])
   \<and> emitLayer id [((''Subnet'', ''utility''), ''s''), ((''Network'', ''main''), ''n'')]
       = emitLayer id [((''Network'', ''main''), ''n''), ((''Subnet'', ''utility''), ''s'')]"
proof -
  let ?env = "terraform_env_ok [(''/dev/sdb'', volume ''gp2''), (''/dev/sda'', volume ''gp3'')] [] []"
  note t = C8_deterministic_template_output
             [where env = ?env
                and root' = "\<lambda>_. Inr [(''/dev/sda'', volume ''gp3''), (''/dev/sdb'', volume ''gp2'')]"
                and additionals' = "\<lambda>_. Inr []" and ephemerals' = "\<lambda>_. Inr []"
                and a = None and e = launch_template_nodes and changes = launch_template_nodes
                and emit = id
                and layer = "[((''Subnet'', ''utility''), ''s''), ((''Network'', ''main''), ''n'')]"
                and layer' = "[((''Network'', ''main''), ''n''), ((''Subnet'', ''utility''), ''s'')]"
                and root = "[(''/dev/sdb'', volume ''gp2''), (''/dev/sda'', volume ''gp3'')]"
                and additionals = "[]" and ephemerals = "[]"]
  have e: "?env\<lparr> buildRootDevice := \<lambda>_. Inr [(''/dev/sda'', volume ''gp3''), (''/dev/sdb'', volume ''gp2'')],
                   buildAdditionalDevices := \<lambda>_. Inr [], buildEphemeralDevices := \<lambda>_. Inr [] \<rparr>
           = terraform_env_ok [(''/dev/sda'', volume ''gp3''), (''/dev/sdb'', volume ''gp2'')] [] []"
    by (simp add: terraform_env_ok_def)
  have s: "(\<forall>x. same_devices (buildRootDevice ?env x)
                  (Inr [(''/dev/sda'', volume ''gp3''), (''/dev/sdb'', volume ''gp2'')]))
           \<and> (\<forall>x. same_devices (buildAdditionalDevices ?env x) (Inr []))
           \<and> (\<forall>x. same_devices (buildEphemeralDevices ?env x) (Inr []))"
    by (auto simp add: terraform_env_ok_def same_map_def)
  have l: "same_map [((''Subnet'', ''utility''), ''s''), ((''Network'', ''main''), ''n'')]
                    [((''Network'', ''main''), ''n''), ((''Subnet'', ''utility''), ''s'')]"
    by (auto simp add: same_map_def)
  have ok: "(ImageID launch_template_nodes = None
             \<or> (\<exists>im. ResolveImage ?env (ValueOf (ImageID launch_template_nodes)) = Inr im))
        \<and> (\<exists>userData. snd (renderUserData ?env launch_template_nodes) = Inr userData)
        \<and> buildRootDevice ?env launch_template_nodes
            = Inr [(''/dev/sdb'', volume ''gp2''), (''/dev/sda'', volume ''gp3'')]
        \<and> buildAdditionalDevices ?env (BlockDeviceMappings launch_template_nodes) = Inr []
        \<and> buildEphemeralDevices ?env (ValueOf (InstanceType launch_template_nodes)) = Inr []
        \<and> (\<forall>(k, v) \<in> set [(''/dev/sdb'', volume ''gp2''), (''/dev/sda'', volume ''gp3'')]
                         \<union> set [] \<union> set []. v \<noteq> None)"
    by (simp add: renderUserData_def terraform_env_ok_def launch_template_nodes_def
          LaunchTemplate_zero_def volume_def)
  have k: "SortedKeys [(''/dev/sdb'', volume ''gp2''), (''/dev/sda'', volume ''gp3'')]
           = [''/dev/sda'', ''/dev/sdb'']"
    by (simp add: SortedKeys_def)
  from t ok obtain block where
    "rendered_block (fst (RenderTerraform ?env None launch_template_nodes launch_template_nodes))
       = Some block"
    "map bd_DeviceName (tf_BlockDeviceMappings block)
       = map Some (SortedKeys [(''/dev/sdb'', volume ''gp2''), (''/dev/sda'', volume ''gp3'')]
                   @ SortedKeys ([] :: devices) @ SortedKeys ([] :: devices))"
    by blast
  then have b: "(case rendered_block (fst (RenderTerraform ?env None
                    launch_template_nodes launch_template_nodes)) of
        None \<Rightarrow> False
      | Some block \<Rightarrow>
          map bd_DeviceName (tf_BlockDeviceMappings block) = [Some ''/dev/sda'', Some ''/dev/sdb''])"
    by (simp add: k SortedKeys_def)
  from t s e l have "RenderTerraform
       (terraform_env_ok [(''/dev/sda'', volume ''gp3''), (''/dev/sdb'', volume ''gp2'')] [] [])
       None launch_template_nodes launch_template_nodes
     = RenderTerraform ?env None launch_template_nodes launch_template_nodes
   \<and> emitLayer id [((''Subnet'', ''utility''), ''s''), ((''Network'', ''main''), ''n'')]
       = emitLayer id [((''Network'', ''main''), ''n''), ((''Subnet'', ''utility''), ''s'')]"
    by auto
  with b show ?thesis by simp
qed

text \<open>
  Claim C8, as stated, fails: the block-device mappings of a block are not in sorted
  device-name order. With the root device \<open>/dev/xvda\<close> and the additional device
  \<open>/dev/sdb\<close> the block has them in this order, root group first.
\<close>

theorem C8_device_groups_counterexample:
  "(case rendered_block (fst (RenderTerraform
          (terraform_env_ok [(''/dev/xvda'', volume ''gp3'')] [(''/dev/sdb'', volume ''gp3'')] [])
          None launch_template_nodes launch_template_nodes)) of
        None \<Rightarrow> False
      | Some block \<Rightarrow>
          map bd_DeviceName (tf_BlockDeviceMappings block) = [Some ''/dev/xvda'', Some ''/dev/sdb''])
   \<and> \<not> sorted [''/dev/xvda'', ''/dev/sdb'']"
  by (simp add: RenderTerraform_def renderUserData_def renderBlockDevices_def SortedKeys_def
        index_map_def createTerraformLaunchTemplateBlockDevice_def volume_def
        terraform_env_ok_def launch_template_nodes_def LaunchTemplate_zero_def ValueOf_def Let_def)


section \<open>The order and the limit of the log dumper\<close>

text \<open>Which nodes and addresses a run takes up: dialling, collecting and closing add
  nothing to that list, each loop adds the elements it gets to, in order.\<close>

lemma dumpNode_attempts:
  "filter attempt (fst (dumpNode env tr name ip useBastion)) = filter attempt tr"
  by (simp add: dumpNode_def split: option.splits)

lemma dumpRegistered_attempts:
  "filter attempt (fst (dumpRegistered env tr node)) = filter attempt tr @ [Ev_dumpRegistered node]"
  by (simp add: dumpRegistered_def Let_def dumpNode_attempts split: option.splits prod.splits)

lemma dumpNotRegistered_attempts:
  "filter attempt (fst (dumpNotRegistered env tr ip useBastion))
     = filter attempt tr @ [Ev_dumpNotRegistered ip useBastion]"
  by (simp add: dumpNotRegistered_def Let_def dumpNode_attempts split: option.splits)

lemma dumpSpecial_attempts:
  "filter attempt (fst (dumpSpecial env ns (tr, dumped)))
     = filter attempt tr @ map Ev_dumpRegistered ns"
proof (induction ns arbitrary: tr dumped)
  case Nil
  then show ?case by simp
next
  case (Cons node ns)
  obtain tr' r where d: "dumpRegistered env tr node = (tr', r)"
    by (cases "dumpRegistered env tr node")
  then have "filter attempt tr' = filter attempt tr @ [Ev_dumpRegistered node]"
    using dumpRegistered_attempts [of env tr node] by simp
  then show ?case
    using d Cons.IH by (cases r) simp_all
qed

lemma dumpRegular_attempts:
  "\<exists>k. filter attempt (fst (snd (dumpRegular env maxNodesToDump ns (tr, dumped))))
         = filter attempt tr @ map Ev_dumpRegistered (take k ns)"
proof (induction ns arbitrary: tr dumped)
  case Nil
  then show ?case by simp
next
  case (Cons node ns)
  show ?case
  proof (cases "int (length dumped) \<ge> maxNodesToDump")
    case True
    then have "filter attempt (fst (snd (dumpRegular env maxNodesToDump (node # ns) (tr, dumped))))
                 = filter attempt tr @ map Ev_dumpRegistered (take 0 (node # ns))"
      by simp
    then show ?thesis by blast
  next
    case False
    obtain tr' r where d: "dumpRegistered env tr node = (tr', r)"
      by (cases "dumpRegistered env tr node")
    then have a: "filter attempt tr' = filter attempt tr @ [Ev_dumpRegistered node]"
      using dumpRegistered_attempts [of env tr node] by simp
    obtain dumped' where
      s: "dumpRegular env maxNodesToDump (node # ns) (tr, dumped)
            = dumpRegular env maxNodesToDump ns (tr', dumped')"
      using False d by (cases r) simp_all
    from Cons.IH [of tr' dumped'] obtain k where
      "filter attempt (fst (snd (dumpRegular env maxNodesToDump ns (tr', dumped'))))
         = filter attempt tr' @ map Ev_dumpRegistered (take k ns)"
      by blast
    then have "filter attempt (fst (snd (dumpRegular env maxNodesToDump (node # ns) (tr, dumped))))
         = filter attempt tr @ map Ev_dumpRegistered (take (Suc k) (node # ns))"
      using s a by simp
    then show ?thesis by blast
  qed
qed

lemma dumpAdditional_attempts:
  "\<exists>k. filter attempt (fst (dumpAdditional env maxNodesToDump dumped useBastion ips tr))
         = filter attempt tr @ map (\<lambda>ip. Ev_dumpNotRegistered ip useBastion) (take k ips)"
proof (induction ips arbitrary: tr)
  case Nil
  then show ?case by simp
next
  case (Cons ip ips)
  show ?case
  proof (cases "int (length dumped) \<ge> maxNodesToDump")
    case True
    then have "filter attempt (fst (dumpAdditional env maxNodesToDump dumped useBastion (ip # ips) tr))
                 = filter attempt tr @ map (\<lambda>ip. Ev_dumpNotRegistered ip useBastion) (take 0 (ip # ips))"
      by simp
    then show ?thesis by blast
  next
    case False
    obtain tr' r where d: "dumpNotRegistered env tr ip useBastion = (tr', r)"
      by (cases "dumpNotRegistered env tr ip useBastion")
    then have a: "filter attempt tr' = filter attempt tr @ [Ev_dumpNotRegistered ip useBastion]"
      using dumpNotRegistered_attempts [of env tr ip useBastion] by simp
    show ?thesis
    proof (cases r)
      case None
      from Cons.IH [of tr'] obtain k where
        "filter attempt (fst (dumpAdditional env maxNodesToDump dumped useBastion ips tr'))
           = filter attempt tr' @ map (\<lambda>ip. Ev_dumpNotRegistered ip useBastion) (take k ips)"
        by blast
      then have "filter attempt (fst (dumpAdditional env maxNodesToDump dumped useBastion (ip # ips) tr))
           = filter attempt tr @ map (\<lambda>ip. Ev_dumpNotRegistered ip useBastion) (take (Suc k) (ip # ips))"
        using False d None a by simp
      then show ?thesis by blast
    next
      case (Some err)
      then have "filter attempt (fst (dumpAdditional env maxNodesToDump dumped useBastion (ip # ips) tr))
           = filter attempt tr @ map (\<lambda>ip. Ev_dumpNotRegistered ip useBastion) (take 1 (ip # ips))"
        using False d a by simp
      then show ?thesis by blast
    qed
  qed
qed

lemma dumpSpecial_all_dumped:
  "(\<forall>tr node. node \<in> set ns \<longrightarrow> snd (dumpRegistered env tr node) = None) \<Longrightarrow>
   snd (dumpSpecial env ns (tr, dumped)) = dumped @ ns"
proof (induction ns arbitrary: tr dumped)
  case Nil
  then show ?case by simp
next
  case (Cons node ns)
  obtain tr' where d: "dumpRegistered env tr node = (tr', None)"
    using Cons.prems by (metis list.set_intros(1) prod.collapse)
  have "snd (dumpSpecial env ns (tr', dumped @ [node])) = (dumped @ [node]) @ ns"
    using Cons.prems by (intro Cons.IH) simp
  then show ?case using d by simp
qed

lemma dumpRegular_dumped:
  "\<exists>more. snd (snd (dumpRegular env maxNodesToDump ns (tr, dumped))) = dumped @ more"
proof (induction ns arbitrary: tr dumped)
  case Nil
  then show ?case by simp
next
  case (Cons node ns)
  show ?case
  proof (cases "int (length dumped) \<ge> maxNodesToDump")
    case True
    then show ?thesis by simp
  next
    case False
    obtain tr' r where d: "dumpRegistered env tr node = (tr', r)"
      by (cases "dumpRegistered env tr node")
    show ?thesis
    proof (cases r)
      case None
      from Cons.IH [of tr' "dumped @ [node]"] obtain more where
        "snd (snd (dumpRegular env maxNodesToDump ns (tr', dumped @ [node]))) = (dumped @ [node]) @ more"
        by blast
      then have "snd (snd (dumpRegular env maxNodesToDump (node # ns) (tr, dumped)))
                   = dumped @ (node # more)"
        using False d None by simp
      then show ?thesis by blast
    next
      case (Some err)
      then show ?thesis using False d Cons.IH [of tr' dumped] by simp
    qed
  qed
qed

lemma dumpRegular_at_limit:
  "int (length dumped) \<ge> maxNodesToDump \<Longrightarrow>
   snd (dumpRegular env maxNodesToDump ns (tr, dumped)) = (tr, dumped)"
  by (cases ns) simp_all

lemma dumpAdditional_at_limit:
  "int (length dumped) \<ge> maxNodesToDump \<Longrightarrow>
   dumpAdditional env maxNodesToDump dumped useBastion ips tr
     = (tr, if ips = [] then None else Some None)"
  by (cases ips) simp_all

lemma DumpAllNodes_dumped:
  "fst (snd (DumpAllNodes env nodes maxNodesToDump ips pips))
     = snd (snd (dumpRegular env maxNodesToDump (filter (\<lambda>node. \<not> controlPlane node) nodes)
                   (dumpSpecial env (filter controlPlane nodes) ([], []))))"
  by (simp add: DumpAllNodes_def Let_def split: prod.splits bool.splits option.splits)

lemma DumpAllNodes_at_limit:
  assumes "int (length (snd (dumpSpecial env (filter controlPlane nodes) ([], [])))) \<ge> maxNodesToDump"
  shows "DumpAllNodes env nodes maxNodesToDump ips pips
         = (fst (dumpSpecial env (filter controlPlane nodes) ([], [])),
            snd (dumpSpecial env (filter controlPlane nodes) ([], [])), None)"
proof -
  obtain tr dumped where s: "dumpSpecial env (filter controlPlane nodes) ([], []) = (tr, dumped)"
    by (cases "dumpSpecial env (filter controlPlane nodes) ([], [])")
  with assms have l: "int (length dumped) \<ge> maxNodesToDump" by simp
  obtain b where r: "dumpRegular env maxNodesToDump (filter (\<lambda>node. \<not> controlPlane node) nodes)
                       (tr, dumped) = (b, tr, dumped)"
    using dumpRegular_at_limit [OF l] by (metis prod.collapse)
  show ?thesis
    using s r l
    by (cases b) (simp_all add: DumpAllNodes_def Let_def dumpAdditional_at_limit)
qed

lemma DumpAllNodes_attempts:
  "\<exists>k ips1 ips2.
     filter attempt (fst (DumpAllNodes env nodes maxNodesToDump ips pips))
       = map Ev_dumpRegistered (filter controlPlane nodes)
         @ map Ev_dumpRegistered (take k (filter (\<lambda>node. \<not> controlPlane node) nodes))
         @ map (\<lambda>ip. Ev_dumpNotRegistered ip False) ips1
         @ map (\<lambda>ip. Ev_dumpNotRegistered ip True) ips2"
proof -
  let ?special = "filter controlPlane nodes"
  let ?regular = "filter (\<lambda>node. \<not> controlPlane node) nodes"
  obtain tr0 d0 where s: "dumpSpecial env ?special ([], []) = (tr0, d0)"
    by (cases "dumpSpecial env ?special ([], [])")
  have a0: "filter attempt tr0 = map Ev_dumpRegistered ?special"
    using dumpSpecial_attempts [of env ?special "[]" "[]"] s by simp
  obtain b tr1 dumped where r: "dumpRegular env maxNodesToDump ?regular (tr0, d0) = (b, tr1, dumped)"
    by (metis prod_cases3)
  obtain k where a1: "filter attempt tr1 = filter attempt tr0 @ map Ev_dumpRegistered (take k ?regular)"
    using dumpRegular_attempts [of env maxNodesToDump ?regular tr0 d0] r by auto
  show ?thesis
  proof (cases b)
    case True
    then have "fst (DumpAllNodes env nodes maxNodesToDump ips pips) = tr1"
      using s r by (simp add: DumpAllNodes_def)
    then have "filter attempt (fst (DumpAllNodes env nodes maxNodesToDump ips pips))
       = map Ev_dumpRegistered ?special @ map Ev_dumpRegistered (take k ?regular)
         @ map (\<lambda>ip. Ev_dumpNotRegistered ip False) [] @ map (\<lambda>ip. Ev_dumpNotRegistered ip True) []"
      using a0 a1 by simp
    then show ?thesis by blast
  next
    case False
    obtain tr2 r2 where p: "dumpAdditional env maxNodesToDump dumped False
                               (findInstancesNotDumped ips dumped) tr1 = (tr2, r2)"
      by (cases "dumpAdditional env maxNodesToDump dumped False (findInstancesNotDumped ips dumped) tr1")
    obtain k1 where a2: "filter attempt tr2 = filter attempt tr1
        @ map (\<lambda>ip. Ev_dumpNotRegistered ip False) (take k1 (findInstancesNotDumped ips dumped))"
      using dumpAdditional_attempts [of env maxNodesToDump dumped False
              "findInstancesNotDumped ips dumped" tr1] p by auto
    show ?thesis
    proof (cases r2)
      case (Some ret)
      then have "fst (DumpAllNodes env nodes maxNodesToDump ips pips) = tr2"
        using s r False p by (simp add: DumpAllNodes_def)
      then have "filter attempt (fst (DumpAllNodes env nodes maxNodesToDump ips pips))
         = map Ev_dumpRegistered ?special @ map Ev_dumpRegistered (take k ?regular)
           @ map (\<lambda>ip. Ev_dumpNotRegistered ip False) (take k1 (findInstancesNotDumped ips dumped))
           @ map (\<lambda>ip. Ev_dumpNotRegistered ip True) []"
        using a0 a1 a2 by simp
      then show ?thesis by blast
    next
      case None
      obtain tr3 r3 where q: "dumpAdditional env maxNodesToDump dumped True
                                 (findInstancesNotDumped pips dumped) tr2 = (tr3, r3)"
        by (cases "dumpAdditional env maxNodesToDump dumped True (findInstancesNotDumped pips dumped) tr2")
      obtain k2 where a3: "filter attempt tr3 = filter attempt tr2
          @ map (\<lambda>ip. Ev_dumpNotRegistered ip True) (take k2 (findInstancesNotDumped pips dumped))"
        using dumpAdditional_attempts [of env maxNodesToDump dumped True
                "findInstancesNotDumped pips dumped" tr2] q by auto
      have "fst (DumpAllNodes env nodes maxNodesToDump ips pips) = tr3"
        using s r False p None q by (cases r3) (simp_all add: DumpAllNodes_def)
      then have "filter attempt (fst (DumpAllNodes env nodes maxNodesToDump ips pips))
         = map Ev_dumpRegistered ?special @ map Ev_dumpRegistered (take k ?regular)
           @ map (\<lambda>ip. Ev_dumpNotRegistered ip False) (take k1 (findInstancesNotDumped ips dumped))
           @ map (\<lambda>ip. Ev_dumpNotRegistered ip True) (take k2 (findInstancesNotDumped pips dumped))"
        using a0 a1 a2 a3 by simp
      then show ?thesis by blast
    qed
  qed
qed

text \<open>
  Claim C10. \<open>DumpAllNodes\<close> takes up every node with a control-plane label (master,
  control-plane or api-server) before any other node or address, whatever
  \<open>maxNodesToDump\<close> is. The limit is looked at only before a regular node and before an
  additional address: when the special nodes alone reach it, nothing else is taken up.
  So when every control-plane node can be dumped, all of them are dumped, and the number
  of dumped nodes exceeds the limit whenever the number of control-plane nodes does.
\<close>

theorem C10_control_plane_nodes_first:
  "(\<exists>rest. filter attempt (fst (DumpAllNodes env nodes maxNodesToDump ips privateIPs))
             = map Ev_dumpRegistered (filter controlPlane nodes) @ rest
           \<and> (\<forall>node. Ev_dumpRegistered node \<in> set rest \<longrightarrow> \<not> controlPlane node))
   \<and> (int (length (snd (dumpSpecial env (filter controlPlane nodes) ([], [])))) \<ge> maxNodesToDump \<longrightarrow>
        DumpAllNodes env nodes maxNodesToDump ips privateIPs
          = (fst (dumpSpecial env (filter controlPlane nodes) ([], [])),
             snd (dumpSpecial env (filter controlPlane nodes) ([], [])), None))
   \<and> ((\<forall>tr node. node \<in> set nodes \<and> controlPlane node \<longrightarrow> snd (dumpRegistered env tr node) = None) \<longrightarrow>
        (\<exists>more. fst (snd (DumpAllNodes env nodes maxNodesToDump ips privateIPs))
                  = filter controlPlane nodes @ more)
        \<and> length (filter controlPlane nodes)
            \<le> length (fst (snd (DumpAllNodes env nodes maxNodesToDump ips privateIPs))))"
proof (intro conjI impI)
  let ?special = "filter controlPlane nodes"
  let ?regular = "filter (\<lambda>node. \<not> controlPlane node) nodes"
  from DumpAllNodes_attempts [of env nodes maxNodesToDump ips privateIPs]
  obtain k ips1 ips2 where
    a: "filter attempt (fst (DumpAllNodes env nodes maxNodesToDump ips privateIPs))
          = map Ev_dumpRegistered ?special
            @ (map Ev_dumpRegistered (take k ?regular)
               @ map (\<lambda>ip. Ev_dumpNotRegistered ip False) ips1
               @ map (\<lambda>ip. Ev_dumpNotRegistered ip True) ips2)"
    by auto
  have "\<forall>node. Ev_dumpRegistered node \<in> set (map Ev_dumpRegistered (take k ?regular)
               @ map (\<lambda>ip. Ev_dumpNotRegistered ip False) ips1
               @ map (\<lambda>ip. Ev_dumpNotRegistered ip True) ips2) \<longrightarrow> \<not> controlPlane node"
    by (auto dest: in_set_takeD)
  with a show "\<exists>rest. filter attempt (fst (DumpAllNodes env nodes maxNodesToDump ips privateIPs))
             = map Ev_dumpRegistered ?special @ rest
           \<and> (\<forall>node. Ev_dumpRegistered node \<in> set rest \<longrightarrow> \<not> controlPlane node)"
    by blast
next
  assume "int (length (snd (dumpSpecial env (filter controlPlane nodes) ([], [])))) \<ge> maxNodesToDump"
  then show "DumpAllNodes env nodes maxNodesToDump ips privateIPs
          = (fst (dumpSpecial env (filter controlPlane nodes) ([], [])),
             snd (dumpSpecial env (filter controlPlane nodes) ([], [])), None)"
    by (rule DumpAllNodes_at_limit)
next
  assume h: "\<forall>tr node. node \<in> set nodes \<and> controlPlane node \<longrightarrow> snd (dumpRegistered env tr node) = None"
  have "\<forall>tr node. node \<in> set (filter controlPlane nodes) \<longrightarrow> snd (dumpRegistered env tr node) = None"
    using h by simp
  then have "snd (dumpSpecial env (filter controlPlane nodes) ([], [])) = [] @ filter controlPlane nodes"
    by (rule dumpSpecial_all_dumped)
  then obtain tr0 where s: "dumpSpecial env (filter controlPlane nodes) ([], []) = (tr0, filter controlPlane nodes)"
    by (metis append_Nil prod.collapse)
  from dumpRegular_dumped [of env maxNodesToDump "filter (\<lambda>node. \<not> controlPlane node) nodes"
         tr0 "filter controlPlane nodes"]
  obtain more where
    "snd (snd (dumpRegular env maxNodesToDump (filter (\<lambda>node. \<not> controlPlane node) nodes)
                 (tr0, filter controlPlane nodes))) = filter controlPlane nodes @ more"
    by blast
  then have m: "fst (snd (DumpAllNodes env nodes maxNodesToDump ips privateIPs))
                  = filter controlPlane nodes @ more"
    using s by (simp add: DumpAllNodes_dumped)
  then show "\<exists>more. fst (snd (DumpAllNodes env nodes maxNodesToDump ips privateIPs))
                  = filter controlPlane nodes @ more"
    by blast
  from m show "length (filter controlPlane nodes)
            \<le> length (fst (snd (DumpAllNodes env nodes maxNodesToDump ips privateIPs)))"
    by simp
qed

theorem C10_control_plane_nodes_first_witness:
  "fst (snd (DumpAllNodes dump_env_ok
       [labelled_node ''worker-1'' ''node-role.kubernetes.io/node'' ''10.0.0.7'',
        labelled_node ''cp-1'' ''node-role.kubernetes.io/control-plane'' ''10.0.0.1'',
        labelled_node ''cp-2'' ''node-role.kubernetes.io/master'' ''10.0.0.2'']
       1 [''10.0.0.9''] []))
     = [labelled_node ''cp-1'' ''node-role.kubernetes.io/control-plane'' ''10.0.0.1'',
        labelled_node ''cp-2'' ''node-role.kubernetes.io/master'' ''10.0.0.2'']
   \<and> filter attempt (fst (DumpAllNodes dump_env_ok
       [labelled_node ''worker-1'' ''node-role.kubernetes.io/node'' ''10.0.0.7'',
        labelled_node ''cp-1'' ''node-role.kubernetes.io/control-plane'' ''10.0.0.1'',
        labelled_node ''cp-2'' ''node-role.kubernetes.io/master'' ''10.0.0.2'']
       1 [''10.0.0.9''] []))
     = [Ev_dumpRegistered (labelled_node ''cp-1'' ''node-role.kubernetes.io/control-plane'' ''10.0.0.1''),
        Ev_dumpRegistered (labelled_node ''cp-2'' ''node-role.kubernetes.io/master'' ''10.0.0.2'')]"
proof -
  let ?nodes = "[labelled_node ''worker-1'' ''node-role.kubernetes.io/node'' ''10.0.0.7'',
        labelled_node ''cp-1'' ''node-role.kubernetes.io/control-plane'' ''10.0.0.1'',
        labelled_node ''cp-2'' ''node-role.kubernetes.io/master'' ''10.0.0.2'']"
  have f: "filter controlPlane ?nodes
           = [labelled_node ''cp-1'' ''node-role.kubernetes.io/control-plane'' ''10.0.0.1'',
              labelled_node ''cp-2'' ''node-role.kubernetes.io/master'' ''10.0.0.2'']"
    by (simp add: controlPlane_def labelled_node_def)
  have d: "dumpSpecial dump_env_ok (filter controlPlane ?nodes) ([], [])
           = ([Ev_dumpRegistered (labelled_node ''cp-1'' ''node-role.kubernetes.io/control-plane'' ''10.0.0.1''),
               Ev_Dial ''10.0.0.1'' True, Ev_dump ''cp-1'', Ev_Close ''cp-1'',
               Ev_dumpRegistered (labelled_node ''cp-2'' ''node-role.kubernetes.io/master'' ''10.0.0.2''),
               Ev_Dial ''10.0.0.2'' True, Ev_dump ''cp-2'', Ev_Close ''cp-2''],
              filter controlPlane ?nodes)"
    unfolding f
    by (simp add: dumpRegistered_def dumpNode_def dump_env_ok_def labelled_node_def Let_def)
  have l: "int (length (snd (dumpSpecial dump_env_ok (filter controlPlane ?nodes) ([], [])))) \<ge> 1"
    unfolding d unfolding f by simp
  from C10_control_plane_nodes_first
         [where env = dump_env_ok and nodes = ?nodes and maxNodesToDump = 1
            and ips = "[''10.0.0.9'']" and privateIPs = "[]"] l
  have "DumpAllNodes dump_env_ok ?nodes 1 [''10.0.0.9''] []
          = (fst (dumpSpecial dump_env_ok (filter controlPlane ?nodes) ([], [])),
             snd (dumpSpecial dump_env_ok (filter controlPlane ?nodes) ([], [])), None)"
    by blast
  then show ?thesis
    unfolding d unfolding f by simp
qed

end
